theory Spec2Isabelle
  imports Main "HOL-Library.Word"
begin

section \<open>Data model\<close>

text \<open>
  The repository holds four versions of one Express backend:
  \<^item> \<^verbatim>\<open>src/tiktokbackend.js\<close>: feed, likes and comments over one JSON file, no accounts
    (suffix \<open>_min\<close> below);
  \<^item> \<^verbatim>\<open>src/unnamed/part_002\<close>: the same with cookie sessions and a user file
    (suffix \<open>_file\<close>);
  \<^item> \<^verbatim>\<open>src/unnamed/part_001\<close>: routes over a \<^verbatim>\<open>store\<close> object that is either a DynamoDB
    client or the JSON files (suffix \<open>_dual\<close>);
  \<^item> \<^verbatim>\<open>src/unnamed/part_000\<close>: DynamoDB only (suffix \<open>_ddb\<close>).

  A JavaScript string is a sequence of UTF-16 code units; \<^verbatim>\<open>length\<close> counts code units.
  \<^verbatim>\<open>Date.now()\<close> and \<^verbatim>\<open>new Date().toISOString()\<close> are inputs of the operation that reads
  them (\<open>now\<close>, \<open>stamp\<close>). The route parameter \<^verbatim>\<open>Number(req.params.id)\<close> is the integer \<open>idn\<close>
  (a parameter that is no integer matches no stored video). A session user id is a number
  and \<^verbatim>\<open>String(userId)\<close> is injective on numbers, so a like witness is recorded under the
  number itself.

  A number of a JSON document is an IEEE double. The counters and ids of the documents
  are integers, kept as \<open>int\<close>; \<^verbatim>\<open>x + 1\<close> of the code is \<open>x + 1\<close> of \<open>int\<close>, which is what the
  double addition gives as long as \<open>x\<close> is a safe integer (\<open>\<bar>x\<bar> < 2 ^ 53\<close>). From
  \<open>2 ^ 53\<close> on the double addition rounds (\<^verbatim>\<open>2 ** 53 + 1\<close> is \<^verbatim>\<open>2 ** 53\<close>) and the model
  does not follow it: a statement about a document that is not reached from the seed
  assumes that the counter it increments is a safe integer.

  A field of a request body is \<open>None\<close> when it is absent or falsy (\<^verbatim>\<open>undefined\<close>, \<^verbatim>\<open>null\<close>,
  \<^verbatim>\<open>""\<close>, \<^verbatim>\<open>0\<close>, \<^verbatim>\<open>false\<close>), which is when \<^verbatim>\<open>field || ""\<close> is the empty string, and else the
  string that \<^verbatim>\<open>String(field)\<close> or \<^verbatim>\<open>field.toString()\<close> gives.
\<close>

type_synonym jsstring = "16 word list"

definition ascii :: "string \<Rightarrow> jsstring" where
  "ascii s = map of_char s"

datatype error_code =
    not_found | unauthorized | empty_comment | too_long
  | missing_credentials | username_too_short | password_too_short
  | username_taken | signup_failed | invalid_old_password | password_change_failed
  | feed_failed

record comment =
  id_c :: int
  user_c :: "jsstring option"
  text_c :: jsstring
  at_c :: jsstring

text \<open>
  A video of the JSON file \<^verbatim>\<open>feed.json\<close>. The fields the code reads through
  \<^verbatim>\<open>x || default\<close> may be absent. \<^verbatim>\<open>likesByUser\<close> is an object whose every value is
  \<^verbatim>\<open>true\<close>: it is kept as the list of its keys, in insertion order.
\<close>

record video =
  id_v :: int
  src_v :: jsstring
  username_v :: jsstring
  caption_v :: jsstring
  music_v :: jsstring
  likeCount_v :: "int option"
  comments_v :: "comment list option"
  likesByUser_v :: "int list option"

record session_user =
  id_s :: int
  username_s :: jsstring

type_synonym session = "session_user option"

datatype jsval = Num int | Str jsstring | Undefined | Comments "comment list" | LikesByUser "int list"

type_synonym jsobject = "(string \<times> jsval) list"

datatype body =
    Error error_code
  | Liked int "int option"
  | Created comment
  | Signed jsstring
  | Feed "jsobject list"
  | Ok

type_synonym response = "nat \<times> body"

text \<open>\<^verbatim>\<open>x || d\<close> on a field that is absent or present.\<close>

definition or_default :: "'a option \<Rightarrow> 'a \<Rightarrow> 'a" where
  "or_default x d = (case x of None \<Rightarrow> d | Some y \<Rightarrow> y)"

text \<open>
  \<^verbatim>\<open>const vid = db.videos.find(p)\<close> returns the first match; the handler mutates that
  object and writes the whole document back: the first match is replaced.
\<close>

fun replace_first :: "('a \<Rightarrow> bool) \<Rightarrow> 'a \<Rightarrow> 'a list \<Rightarrow> 'a list" where
  "replace_first P y [] = []"
| "replace_first P y (x # xs) = (if P x then y # xs else x # replace_first P y xs)"

text \<open>
  \<^verbatim>\<open>String.prototype.trim\<close> strips the code units of WhiteSpace and LineTerminator
  (ECMA-262) from both ends.
\<close>

definition is_ws :: "16 word \<Rightarrow> bool" where
  "is_ws c \<longleftrightarrow>
     c \<in> {0x9, 0xA, 0xB, 0xC, 0xD, 0x20, 0xA0, 0x1680, 0x2028, 0x2029, 0x202F, 0x205F,
          0x3000, 0xFEFF}
     \<or> (0x2000 \<le> c \<and> c \<le> 0x200A)"

definition js_trim :: "jsstring \<Rightarrow> jsstring" where
  "js_trim s = rev (dropWhile is_ws (rev (dropWhile is_ws s)))"

section \<open>The minimal backend (src/tiktokbackend.js)\<close>

definition seed_min :: "video list" where
  "seed_min =
    [\<lparr>id_v = 1,
      src_v = ascii ''https://cdn.coverr.co/videos/coverr-man-walking-on-a-suspension-bridge-6468/1080p.mp4'',
      username_v = ascii ''@alpine.explorer'',
      caption_v = ascii ''Crossing the old suspension bridge. Would you? #hike #adventure'',
      music_v = ascii ''Original Sound '' @ [0x2014] @ ascii '' alpine'',
      likeCount_v = Some 0, comments_v = Some [], likesByUser_v = None\<rparr>,
     \<lparr>id_v = 2,
      src_v = ascii ''https://cdn.coverr.co/videos/coverr-city-street-at-night-6923/1080p.mp4'',
      username_v = ascii ''@nocturne'',
      caption_v = ascii ''Blue hour drives hit different.'',
      music_v = ascii ''City Nights '' @ [0x2014] @ ascii '' analogtape'',
      likeCount_v = Some 0, comments_v = Some [], likesByUser_v = None\<rparr>,
     \<lparr>id_v = 3,
      src_v = ascii ''https://cdn.coverr.co/videos/coverr-making-pizza-8157/1080p.mp4'',
      username_v = ascii ''@chefmode'',
      caption_v = ascii ''POV: best pizza of your life '' @ [0xD83C, 0xDF55],
      music_v = ascii ''Neapolitan Vibes '' @ [0x2014] @ ascii '' cucina'',
      likeCount_v = Some 0, comments_v = Some [], likesByUser_v = None\<rparr>,
     \<lparr>id_v = 4,
      src_v = ascii ''https://cdn.coverr.co/videos/coverr-surfing-on-the-ocean-9720/1080p.mp4'',
      username_v = ascii ''@surf.check'',
      caption_v = ascii ''Morning glass. Lefts were firing.'',
      music_v = ascii ''Sea Breeze '' @ [0x2014] @ ascii '' modular'',
      likeCount_v = Some 0, comments_v = Some [], likesByUser_v = None\<rparr>,
     \<lparr>id_v = 5,
      src_v = ascii ''https://cdn.coverr.co/videos/coverr-writing-in-a-notebook-5691/1080p.mp4'',
      username_v = ascii ''@studylog'',
      caption_v = ascii ''25m deep work, 5m rest. #pomodoro'',
      music_v = ascii ''Lo-fi Loop '' @ [0x2014] @ ascii '' studycat'',
      likeCount_v = Some 0, comments_v = Some [], likesByUser_v = None\<rparr>]"

text \<open>\<^verbatim>\<open>app.post("/api/videos/:id/like", ...)\<close>, tiktokbackend.js lines 99-107.\<close>

definition post_like_min :: "int \<Rightarrow> video list \<Rightarrow> video list \<times> response" where
  "post_like_min idn db =
     (case find (\<lambda>v. id_v v = idn) db of
        None \<Rightarrow> (db, (404, Error not_found))
      | Some vid \<Rightarrow>
          let vid' = vid\<lparr>likeCount_v := Some (or_default (likeCount_v vid) 0 + 1)\<rparr>
          in (replace_first (\<lambda>v. id_v v = idn) vid' db, (200, Liked idn (likeCount_v vid'))))"

text \<open>\<^verbatim>\<open>app.post("/api/videos/:id/comments", ...)\<close>, tiktokbackend.js lines 117-136.
  \<open>body_text\<close> is \<^verbatim>\<open>req.body?.text\<close>: \<open>None\<close> when absent or falsy, else the string its
  \<^verbatim>\<open>toString()\<close> gives.\<close>

definition post_comment_min ::
  "int \<Rightarrow> jsstring option \<Rightarrow> int \<Rightarrow> jsstring \<Rightarrow> video list \<Rightarrow> video list \<times> response" where
  "post_comment_min idn body_text now stamp db =
     (let text = js_trim (or_default body_text []) in
      if text = [] then (db, (400, Error empty_comment))
      else if length text > 300 then (db, (400, Error too_long))
      else
        (case find (\<lambda>v. id_v v = idn) db of
           None \<Rightarrow> (db, (404, Error not_found))
         | Some vid \<Rightarrow>
             let comment = \<lparr>id_c = now, user_c = None, text_c = text, at_c = stamp\<rparr>;
                 vid' = vid\<lparr>comments_v := Some (or_default (comments_v vid) [] @ [comment])\<rparr>
             in (replace_first (\<lambda>v. id_v v = idn) vid' db, (201, Created comment))))"

section \<open>The file backend with sessions (src/unnamed/part_002)\<close>

text \<open>The seed of \<^verbatim>\<open>feed.json\<close> (part_002 lines 20-32; part_001 lines 192-225 is the same
  document).\<close>

definition seed_file :: "video list" where
  "seed_file =
    [\<lparr>id_v = 1,
      src_v = ascii ''https://cdn.coverr.co/videos/coverr-man-walking-on-a-suspension-bridge-6468/1080p.mp4'',
      username_v = ascii ''@alpine.explorer'',
      caption_v = ascii ''Crossing the old suspension bridge. Would you? #hike #adventure'',
      music_v = ascii ''Original Sound '' @ [0xE2, 0x20AC, 0x201D] @ ascii '' alpine'',
      likeCount_v = Some 0, comments_v = Some [], likesByUser_v = Some []\<rparr>,
     \<lparr>id_v = 2,
      src_v = ascii ''https://cdn.coverr.co/videos/coverr-city-street-at-night-6923/1080p.mp4'',
      username_v = ascii ''@nocturne'',
      caption_v = ascii ''Blue hour drives hit different.'',
      music_v = ascii ''City Nights '' @ [0xE2, 0x20AC, 0x201D] @ ascii '' analogtape'',
      likeCount_v = Some 0, comments_v = Some [], likesByUser_v = Some []\<rparr>,
     \<lparr>id_v = 3,
      src_v = ascii ''https://cdn.coverr.co/videos/coverr-making-pizza-8157/1080p.mp4'',
      username_v = ascii ''@chefmode'',
      caption_v = ascii ''POV: best pizza of your life '' @ [0xF0, 0x178, 0x2022],
      music_v = ascii ''Neapolitan Vibes '' @ [0xE2, 0x20AC, 0x201D] @ ascii '' cucina'',
      likeCount_v = Some 0, comments_v = Some [], likesByUser_v = Some []\<rparr>]"

text \<open>\<^verbatim>\<open>requireAuth(req, res, next)\<close>: part_002 lines 59-62, part_001 lines 299-302, part_000
  lines 155-158. A request without a session or without a session user is \<open>None\<close>.\<close>

definition requireAuth :: "session \<Rightarrow> 's \<Rightarrow> (session_user \<Rightarrow> 's \<times> response) \<Rightarrow> 's \<times> response" where
  "requireAuth sess st next =
     (case sess of
        None \<Rightarrow> (st, (401, Error unauthorized))
      | Some u \<Rightarrow> next u)"

text \<open>The handler of \<^verbatim>\<open>POST /api/videos/:id/like\<close>, part_002 lines 115-129. The increment
  of line 125 is exact for a \<^verbatim>\<open>likeCount\<close> that is a safe integer (see the data model).\<close>

definition like_handler_file :: "session_user \<Rightarrow> int \<Rightarrow> video list \<Rightarrow> video list \<times> response" where
  "like_handler_file u idn db =
     (case find (\<lambda>v. id_v v = idn) db of
        None \<Rightarrow> (db, (404, Error not_found))
      | Some vid \<Rightarrow>
          let vid1 = vid\<lparr>likesByUser_v := Some (or_default (likesByUser_v vid) [])\<rparr>;
              uid = id_s u;
              vid2 = (if uid \<notin> set (or_default (likesByUser_v vid1) [])
                      then vid1\<lparr>likesByUser_v := Some (or_default (likesByUser_v vid1) [] @ [uid]),
                                likeCount_v := Some (or_default (likeCount_v vid1) 0 + 1)\<rparr>
                      else vid1)
          in (replace_first (\<lambda>v. id_v v = idn) vid2 db, (200, Liked idn (likeCount_v vid2))))"

definition post_like_file :: "session \<Rightarrow> int \<Rightarrow> video list \<Rightarrow> video list \<times> response" where
  "post_like_file sess idn db = requireAuth sess db (\<lambda>u. like_handler_file u idn db)"

text \<open>The handler of \<^verbatim>\<open>POST /api/videos/:id/comments\<close>, part_002 lines 139-159.\<close>

definition comment_handler_file ::
  "session_user \<Rightarrow> int \<Rightarrow> jsstring option \<Rightarrow> int \<Rightarrow> jsstring \<Rightarrow> video list \<Rightarrow> video list \<times> response" where
  "comment_handler_file u idn body_text now stamp db =
     (let text = js_trim (or_default body_text []) in
      if text = [] then (db, (400, Error empty_comment))
      else if length text > 300 then (db, (400, Error too_long))
      else
        (case find (\<lambda>v. id_v v = idn) db of
           None \<Rightarrow> (db, (404, Error not_found))
         | Some vid \<Rightarrow>
             let comment = \<lparr>id_c = now, user_c = Some (username_s u), text_c = text, at_c = stamp\<rparr>;
                 vid' = vid\<lparr>comments_v := Some (or_default (comments_v vid) [] @ [comment])\<rparr>
             in (replace_first (\<lambda>v. id_v v = idn) vid' db, (201, Created comment))))"

definition post_comment_file ::
  "session \<Rightarrow> int \<Rightarrow> jsstring option \<Rightarrow> int \<Rightarrow> jsstring \<Rightarrow> video list \<Rightarrow> video list \<times> response" where
  "post_comment_file sess idn body_text now stamp db =
     requireAuth sess db (\<lambda>u. comment_handler_file u idn body_text now stamp db)"

text \<open>\<^verbatim>\<open>GET /api/feed\<close>, part_002 lines 105-112. \<open>props_video\<close> lists the own properties of a
  parsed video in the order of the document; the handler's rest pattern
  \<^verbatim>\<open>({ comments, likesByUser, ...v })\<close> keeps all of them but the two it names, and the
  object literal adds \<^verbatim>\<open>commentCount\<close>.\<close>

definition props_video :: "video \<Rightarrow> jsobject" where
  "props_video v =
     [(''id'', Num (id_v v)), (''src'', Str (src_v v)), (''username'', Str (username_v v)),
      (''caption'', Str (caption_v v)), (''music'', Str (music_v v))]
     @ (case likeCount_v v of None \<Rightarrow> [] | Some n \<Rightarrow> [(''likeCount'', Num n)])
     @ (case comments_v v of None \<Rightarrow> [] | Some cs \<Rightarrow> [(''comments'', Comments cs)])
     @ (case likesByUser_v v of None \<Rightarrow> [] | Some m \<Rightarrow> [(''likesByUser'', LikesByUser m)])"

definition feed_entry_file :: "video \<Rightarrow> jsobject" where
  "feed_entry_file v =
     filter (\<lambda>(k, x). k \<noteq> ''comments'' \<and> k \<noteq> ''likesByUser'') (props_video v)
     @ [(''commentCount'', Num (int (length (or_default (comments_v v) []))))]"

definition get_feed_file :: "video list \<Rightarrow> video list \<times> response" where
  "get_feed_file db = (db, (200, Feed (map feed_entry_file db)))"

text \<open>A user of \<^verbatim>\<open>users.json\<close> or of the users table.\<close>

record user =
  id_u :: int
  username_u :: jsstring
  passwordHash_u :: jsstring
  courses_u :: "jsstring list option"

text \<open>\<^verbatim>\<open>POST /api/auth/signup\<close>, part_002 lines 65-82. \<open>username\<close> and \<open>password\<close> are the
  fields of the request body (\<open>None\<close> when absent or falsy, else the string
  \<^verbatim>\<open>String(...)\<close> gives); the library
  functions \<^verbatim>\<open>toLowerCase\<close> and \<^verbatim>\<open>bcrypt.hash\<close> are parameters. The result carries the
  session after the request.\<close>

definition post_signup_file ::
  "(jsstring \<Rightarrow> jsstring) \<Rightarrow> (jsstring \<Rightarrow> jsstring) \<Rightarrow> jsstring option \<Rightarrow> jsstring option \<Rightarrow> int
     \<Rightarrow> session \<Rightarrow> user list \<Rightarrow> user list \<times> session \<times> response" where
  "post_signup_file toLowerCase bcrypt_hash username password now sess users =
     (let un = or_default username []; pw = or_default password [] in
      if un = [] \<or> pw = [] then (users, sess, (400, Error missing_credentials))
      else if length un < 3 then (users, sess, (400, Error username_too_short))
      else if length pw < 6 then (users, sess, (400, Error password_too_short))
      else if list_ex (\<lambda>u. toLowerCase (username_u u) = toLowerCase un) users
        then (users, sess, (409, Error username_taken))
      else
        let user = \<lparr>id_u = now, username_u = un, passwordHash_u = bcrypt_hash pw, courses_u = None\<rparr>
        in (users @ [user], Some \<lparr>id_s = id_u user, username_s = username_u user\<rparr>,
            (201, Signed (username_u user))))"

section \<open>The DynamoDB tables (src/unnamed/part_000, src/unnamed/part_001)\<close>

text \<open>
  An item of the videos table. Only the key is always there: \<^verbatim>\<open>UpdateCommand\<close> on a key the
  table lacks creates the item from the key and the attributes the update sets.
  \<^verbatim>\<open>likes\<close> holds \<^verbatim>\<open>String(userId)\<close> of each liker (kept as the number, see above).
\<close>

record ddb_video =
  id_d :: int
  src_d :: "jsstring option"
  username_d :: "jsstring option"
  caption_d :: "jsstring option"
  music_d :: "jsstring option"
  likeCount_d :: "int option"
  comments_d :: "comment list option"
  likes_d :: "int list option"
  commentCount_d :: "int option"

record ddb =
  USERS_TABLE :: "user list"
  VIDEOS_TABLE :: "ddb_video list"

text \<open>What \<^verbatim>\<open>await\<close> can throw: the rejection of a condition expression by DynamoDB, or
  \<^verbatim>\<open>new Error(code)\<close> of the file store.\<close>

datatype exn = ConditionalCheckFailedException | JsError error_code

text \<open>
  The commands of the document client, on a table kept as the list of its items (one
  item per key, in the order a scan returns them). \<^verbatim>\<open>GetCommand\<close> returns the item of a
  key; \<^verbatim>\<open>PutCommand\<close> replaces the item of the same key or adds a new one, and with
  \<^verbatim>\<open>attribute_not_exists(<key>)\<close> it is rejected when the key has an item;
  \<^verbatim>\<open>UpdateCommand\<close> evaluates its condition on the item of the key (on the bare key when
  there is none), applies the update expression and stores the result
  (\<^verbatim>\<open>ReturnValues: "ALL_NEW"\<close> returns it).
\<close>

definition GetItem :: "('a \<Rightarrow> 'k) \<Rightarrow> 'k \<Rightarrow> 'a list \<Rightarrow> 'a option" where
  "GetItem key k tbl = find (\<lambda>x. key x = k) tbl"

definition PutItem :: "('a \<Rightarrow> 'k) \<Rightarrow> 'a \<Rightarrow> 'a list \<Rightarrow> 'a list" where
  "PutItem key item tbl =
     (if list_ex (\<lambda>x. key x = key item) tbl
      then replace_first (\<lambda>x. key x = key item) item tbl
      else tbl @ [item])"

definition PutItem_not_exists :: "('a \<Rightarrow> 'k) \<Rightarrow> 'a \<Rightarrow> 'a list \<Rightarrow> exn + 'a list" where
  "PutItem_not_exists key item tbl =
     (case GetItem key (key item) tbl of
        Some old \<Rightarrow> Inl ConditionalCheckFailedException
      | None \<Rightarrow> Inr (PutItem key item tbl))"

definition UpdateItem ::
  "('a \<Rightarrow> 'k) \<Rightarrow> 'k \<Rightarrow> ('k \<Rightarrow> 'a) \<Rightarrow> ('a \<Rightarrow> bool) \<Rightarrow> ('a \<Rightarrow> 'a) \<Rightarrow> 'a list \<Rightarrow> exn + ('a list \<times> 'a)" where
  "UpdateItem key k bare cond upd tbl =
     (let old = or_default (GetItem key k tbl) (bare k) in
      if cond old then (let new = upd old in Inr (PutItem key new tbl, new))
      else Inl ConditionalCheckFailedException)"

definition bare_video :: "int \<Rightarrow> ddb_video" where
  "bare_video k =
     \<lparr>id_d = k, src_d = None, username_d = None, caption_d = None, music_d = None,
      likeCount_d = None, comments_d = None, likes_d = None, commentCount_d = None\<rparr>"

text \<open>\<^verbatim>\<open>store.getUser\<close> and \<^verbatim>\<open>store.createUser\<close>: part_000 lines 48-62, part_001 lines 60-72.\<close>

definition getUser_ddb :: "jsstring \<Rightarrow> ddb \<Rightarrow> user option" where
  "getUser_ddb username st = GetItem username_u username (USERS_TABLE st)"

definition createUser_ddb :: "jsstring \<Rightarrow> jsstring \<Rightarrow> int \<Rightarrow> ddb \<Rightarrow> exn + (ddb \<times> user)" where
  "createUser_ddb username passwordHash now st =
     (let user = \<lparr>id_u = now, username_u = username, passwordHash_u = passwordHash, courses_u = None\<rparr>
      in case PutItem_not_exists username_u user (USERS_TABLE st) of
           Inl e \<Rightarrow> Inl e
         | Inr tbl \<Rightarrow> Inr (st\<lparr>USERS_TABLE := tbl\<rparr>, user))"

text \<open>\<^verbatim>\<open>store.changePassword\<close>, part_000 lines 88-101; \<^verbatim>\<open>bcrypt.compare\<close> and
  \<^verbatim>\<open>bcrypt.hash\<close> are parameters. The \<^verbatim>\<open>UpdateCommand\<close> with \<^verbatim>\<open>SET passwordHash = :h\<close> is
  sent for the key of the item just read, whose other attributes it keeps.\<close>

definition changePassword ::
  "(jsstring \<Rightarrow> jsstring \<Rightarrow> bool) \<Rightarrow> (jsstring \<Rightarrow> jsstring) \<Rightarrow> jsstring \<Rightarrow> jsstring \<Rightarrow> jsstring
     \<Rightarrow> ddb \<Rightarrow> ddb \<times> bool" where
  "changePassword bcrypt_compare bcrypt_hash username oldPassword newPassword st =
     (case GetItem username_u username (USERS_TABLE st) of
        None \<Rightarrow> (st, False)
      | Some u \<Rightarrow>
          if \<not> bcrypt_compare oldPassword (passwordHash_u u) then (st, False)
          else
            let hash = bcrypt_hash newPassword
            in (st\<lparr>USERS_TABLE :=
                     map (\<lambda>x. if username_u x = username then x\<lparr>passwordHash_u := hash\<rparr> else x)
                       (USERS_TABLE st)\<rparr>, True))"

text \<open>\<^verbatim>\<open>store.listVideos\<close>: part_000 lines 104-111, part_001 lines 75-88. An attribute the
  item lacks reads as \<^verbatim>\<open>undefined\<close>.\<close>

definition str_or_undefined :: "jsstring option \<Rightarrow> jsval" where
  "str_or_undefined x = (case x of None \<Rightarrow> Undefined | Some s \<Rightarrow> Str s)"

definition public_ddb :: "ddb_video \<Rightarrow> jsobject" where
  "public_ddb v =
     [(''id'', Num (id_d v)), (''src'', str_or_undefined (src_d v)),
      (''username'', str_or_undefined (username_d v)),
      (''caption'', str_or_undefined (caption_d v)), (''music'', str_or_undefined (music_d v)),
      (''likeCount'', Num (or_default (likeCount_d v) 0)),
      (''commentCount'', Num (int (length (or_default (comments_d v) []))))]"

definition listVideos_ddb :: "ddb \<Rightarrow> jsobject list" where
  "listVideos_ddb st = map public_ddb (VIDEOS_TABLE st)"

text \<open>\<^verbatim>\<open>store.likeVideo\<close>: part_000 lines 112-122, part_001 lines 90-109. The update
  expression is \<^verbatim>\<open>ADD likeCount :one SET likes = list_append(if_not_exists(likes, :empty), :uid)\<close>
  under the condition \<^verbatim>\<open>attribute_not_exists(likes) OR NOT contains(likes, :u)\<close>.\<close>

definition likeVideo_ddb :: "int \<Rightarrow> int \<Rightarrow> ddb \<Rightarrow> exn + (ddb \<times> int option)" where
  "likeVideo_ddb idn userId st =
     (case UpdateItem id_d idn bare_video
             (\<lambda>v. likes_d v = None \<or> userId \<notin> set (or_default (likes_d v) []))
             (\<lambda>v. v\<lparr>likeCount_d := Some (or_default (likeCount_d v) 0 + 1),
                    likes_d := Some (or_default (likes_d v) [] @ [userId])\<rparr>)
             (VIDEOS_TABLE st) of
        Inl e \<Rightarrow> Inl e
      | Inr (tbl, new) \<Rightarrow> Inr (st\<lparr>VIDEOS_TABLE := tbl\<rparr>, Some (or_default (likeCount_d new) 0)))"

text \<open>\<^verbatim>\<open>store.addComment\<close>: part_000 lines 123-132, part_001 lines 111-128. The update
  expression is \<^verbatim>\<open>SET comments = list_append(if_not_exists(comments, :empty), :c),
  commentCount = if_not_exists(commentCount, :zero) + :one\<close>, without a condition.\<close>

definition addComment_ddb ::
  "int \<Rightarrow> jsstring \<Rightarrow> jsstring \<Rightarrow> int \<Rightarrow> jsstring \<Rightarrow> ddb \<Rightarrow> exn + (ddb \<times> comment)" where
  "addComment_ddb idn username text now stamp st =
     (let comment = \<lparr>id_c = now, user_c = Some username, text_c = text, at_c = stamp\<rparr>
      in case UpdateItem id_d idn bare_video (\<lambda>v. True)
                (\<lambda>v. v\<lparr>comments_d := Some (or_default (comments_d v) [] @ [comment]),
                       commentCount_d := Some (or_default (commentCount_d v) 0 + 1)\<rparr>)
                (VIDEOS_TABLE st) of
           Inl e \<Rightarrow> Inl e
         | Inr (tbl, new) \<Rightarrow> Inr (st\<lparr>VIDEOS_TABLE := tbl\<rparr>, comment))"

text \<open>\<^verbatim>\<open>store.ensureSeedVideos\<close>: part_000 lines 139-151, part_001 lines 140-180. The two
  files seed the same three videos; their captions differ in a few code units, so the
  seed is a parameter.\<close>

definition ensureSeedVideos_ddb :: "ddb_video list \<Rightarrow> ddb \<Rightarrow> ddb" where
  "ensureSeedVideos_ddb seed st =
     (if VIDEOS_TABLE st \<noteq> [] then st
      else st\<lparr>VIDEOS_TABLE := foldl (\<lambda>tbl v. PutItem id_d v tbl) (VIDEOS_TABLE st) seed\<rparr>)"

definition seed_item :: "int \<Rightarrow> jsstring \<Rightarrow> jsstring \<Rightarrow> jsstring \<Rightarrow> jsstring \<Rightarrow> ddb_video" where
  "seed_item k src username caption music =
     \<lparr>id_d = k, src_d = Some src, username_d = Some username, caption_d = Some caption,
      music_d = Some music, likeCount_d = Some 0, comments_d = Some [], likes_d = Some [],
      commentCount_d = None\<rparr>"

definition seed_ddb :: "ddb_video list" where
  "seed_ddb =
    [seed_item 1
       (ascii ''https://cdn.coverr.co/videos/coverr-man-walking-on-a-suspension-bridge-6468/1080p.mp4'')
       (ascii ''@alpine.explorer'')
       (ascii ''Crossing the old suspension bridge. Would you? #hike #adventure'')
       (ascii ''Original Sound '' @ [0x2014] @ ascii '' alpine''),
     seed_item 2
       (ascii ''https://cdn.coverr.co/videos/coverr-city-street-at-night-6923/1080p.mp4'')
       (ascii ''@nocturne'')
       (ascii ''Blue hour drives hit different.'')
       (ascii ''City Nights '' @ [0x2014] @ ascii '' analogtape''),
     seed_item 3
       (ascii ''https://cdn.coverr.co/videos/coverr-making-pizza-8157/1080p.mp4'')
       (ascii ''@chefmode'')
       (ascii ''POV: best pizza of your life '' @ [0xD83C, 0xDF55])
       (ascii ''Neapolitan Vibes '' @ [0x2014] @ ascii '' cucina'')]"

definition seed_dual :: "ddb_video list" where
  "seed_dual =
    [seed_item 1
       (ascii ''https://cdn.coverr.co/videos/coverr-man-walking-on-a-suspension-bridge-6468/1080p.mp4'')
       (ascii ''@alpine.explorer'')
       (ascii ''Crossing the old suspension bridge. Would you? #hike #adventure'')
       (ascii ''Original Sound '' @ [0xE2, 0x20AC, 0x201D] @ ascii '' alpine''),
     seed_item 2
       (ascii ''https://cdn.coverr.co/videos/coverr-city-street-at-night-6923/1080p.mp4'')
       (ascii ''@nocturne'')
       (ascii ''Blue hour drives hit different.'')
       (ascii ''City Nights '' @ [0xE2, 0x20AC, 0x201D] @ ascii '' analogtape''),
     seed_item 3
       (ascii ''https://cdn.coverr.co/videos/coverr-making-pizza-8157/1080p.mp4'')
       (ascii ''@chefmode'')
       (ascii ''POV: best pizza of your life '' @ [0xF0, 0x178, 0x2022])
       (ascii ''Neapolitan Vibes '' @ [0xE2, 0x20AC, 0x201D] @ ascii '' cucina'')]"

section \<open>DynamoDB only (src/unnamed/part_000): the routes\<close>

text \<open>\<^verbatim>\<open>POST /api/videos/:id/like\<close>, part_000 lines 201-204: every exception of
  \<^verbatim>\<open>store.likeVideo\<close> is answered by 404.\<close>

definition like_handler_ddb :: "session_user \<Rightarrow> int \<Rightarrow> ddb \<Rightarrow> ddb \<times> response" where
  "like_handler_ddb u idn st =
     (case likeVideo_ddb idn (id_s u) st of
        Inr (st', likeCount) \<Rightarrow> (st', (200, Liked idn likeCount))
      | Inl err \<Rightarrow> (st, (404, Error not_found)))"

definition post_like_ddb :: "session \<Rightarrow> int \<Rightarrow> ddb \<Rightarrow> ddb \<times> response" where
  "post_like_ddb sess idn st = requireAuth sess st (\<lambda>u. like_handler_ddb u idn st)"

text \<open>\<^verbatim>\<open>POST /api/videos/:id/comments\<close>, part_000 lines 209-215.\<close>

definition comment_handler_ddb ::
  "session_user \<Rightarrow> int \<Rightarrow> jsstring option \<Rightarrow> int \<Rightarrow> jsstring \<Rightarrow> ddb \<Rightarrow> ddb \<times> response" where
  "comment_handler_ddb u idn body_text now stamp st =
     (let text = js_trim (or_default body_text []) in
      if length text < 1 then (st, (400, Error empty_comment))
      else if length text > 300 then (st, (400, Error too_long))
      else
        (case addComment_ddb idn (username_s u) text now stamp st of
           Inr (st', comment) \<Rightarrow> (st', (201, Created comment))
         | Inl err \<Rightarrow> (st, (404, Error not_found))))"

definition post_comment_ddb ::
  "session \<Rightarrow> int \<Rightarrow> jsstring option \<Rightarrow> int \<Rightarrow> jsstring \<Rightarrow> ddb \<Rightarrow> ddb \<times> response" where
  "post_comment_ddb sess idn body_text now stamp st =
     requireAuth sess st (\<lambda>u. comment_handler_ddb u idn body_text now stamp st)"

text \<open>\<^verbatim>\<open>GET /api/feed\<close>, part_000 lines 197-200.\<close>

definition get_feed_ddb :: "ddb \<Rightarrow> ddb \<times> response" where
  "get_feed_ddb st =
     (let st' = ensureSeedVideos_ddb seed_ddb st in (st', (200, Feed (listVideos_ddb st'))))"

text \<open>\<^verbatim>\<open>POST /api/account/password\<close>, part_000 lines 235-241.\<close>

definition password_handler_ddb ::
  "(jsstring \<Rightarrow> jsstring \<Rightarrow> bool) \<Rightarrow> (jsstring \<Rightarrow> jsstring) \<Rightarrow> session_user \<Rightarrow> jsstring option
     \<Rightarrow> jsstring option \<Rightarrow> ddb \<Rightarrow> ddb \<times> response" where
  "password_handler_ddb bcrypt_compare bcrypt_hash u body_old body_new st =
     (let oldPassword = or_default body_old []; newPassword = or_default body_new [] in
      if length newPassword < 6 then (st, (400, Error password_too_short))
      else
        (case changePassword bcrypt_compare bcrypt_hash (username_s u) oldPassword newPassword st of
           (st', ok) \<Rightarrow>
             if \<not> ok then (st', (401, Error invalid_old_password)) else (st', (200, Ok))))"

definition post_password_ddb ::
  "(jsstring \<Rightarrow> jsstring \<Rightarrow> bool) \<Rightarrow> (jsstring \<Rightarrow> jsstring) \<Rightarrow> session \<Rightarrow> jsstring option
     \<Rightarrow> jsstring option \<Rightarrow> ddb \<Rightarrow> ddb \<times> response" where
  "post_password_ddb bcrypt_compare bcrypt_hash sess body_old body_new st =
     requireAuth sess st (\<lambda>u. password_handler_ddb bcrypt_compare bcrypt_hash u body_old body_new st)"

section \<open>DynamoDB preferred, JSON files otherwise (src/unnamed/part_001)\<close>

text \<open>
  The routes of part_001 call the methods of \<^verbatim>\<open>store\<close>, which is one of two objects
  (lines 58-181 and 237-295). A method takes the state of its backend and returns the
  new state with its result, or the exception it throws.
\<close>

record 's store =
  getUser :: "jsstring \<Rightarrow> 's \<Rightarrow> user option"
  createUser :: "jsstring \<Rightarrow> jsstring \<Rightarrow> int \<Rightarrow> 's \<Rightarrow> exn + ('s \<times> user)"
  listVideos :: "'s \<Rightarrow> jsobject list"
  likeVideo :: "int \<Rightarrow> int \<Rightarrow> 's \<Rightarrow> exn + ('s \<times> int option)"
  addComment :: "int \<Rightarrow> jsstring \<Rightarrow> jsstring \<Rightarrow> int \<Rightarrow> jsstring \<Rightarrow> 's \<Rightarrow> exn + ('s \<times> comment)"
  ensureSeedVideos :: "'s \<Rightarrow> 's"

definition store_ddb :: "ddb store" where
  "store_ddb =
     \<lparr>getUser = getUser_ddb, createUser = createUser_ddb, listVideos = listVideos_ddb,
      likeVideo = likeVideo_ddb, addComment = addComment_ddb,
      ensureSeedVideos = ensureSeedVideos_ddb seed_dual\<rparr>"

record files =
  USERS_FILE :: "user list"
  DB_FILE :: "video list"

text \<open>\<^verbatim>\<open>ensureLocalSeed()\<close> on an empty data directory, part_001 lines 188-228.\<close>

definition seed_files :: files where
  "seed_files = \<lparr>USERS_FILE = [], DB_FILE = seed_file\<rparr>"

text \<open>The methods of the file store, part_001 lines 238-294.\<close>

definition getUser_files :: "(jsstring \<Rightarrow> jsstring) \<Rightarrow> jsstring \<Rightarrow> files \<Rightarrow> user option" where
  "getUser_files toLowerCase username st =
     find (\<lambda>x. toLowerCase (username_u x) = toLowerCase username) (USERS_FILE st)"

definition createUser_files ::
  "(jsstring \<Rightarrow> jsstring) \<Rightarrow> jsstring \<Rightarrow> jsstring \<Rightarrow> int \<Rightarrow> files \<Rightarrow> exn + (files \<times> user)" where
  "createUser_files toLowerCase username passwordHash now st =
     (if list_ex (\<lambda>x. toLowerCase (username_u x) = toLowerCase username) (USERS_FILE st)
      then Inl (JsError username_taken)
      else
        let user = \<lparr>id_u = now, username_u = username, passwordHash_u = passwordHash, courses_u = None\<rparr>
        in Inr (st\<lparr>USERS_FILE := USERS_FILE st @ [user]\<rparr>, user))"

definition public_files :: "video \<Rightarrow> jsobject" where
  "public_files v =
     [(''id'', Num (id_v v)), (''src'', Str (src_v v)), (''username'', Str (username_v v)),
      (''caption'', Str (caption_v v)), (''music'', Str (music_v v)),
      (''likeCount'', Num (or_default (likeCount_v v) 0)),
      (''commentCount'', Num (int (length (or_default (comments_v v) []))))]"

definition listVideos_files :: "files \<Rightarrow> jsobject list" where
  "listVideos_files st = map public_files (DB_FILE st)"

definition likeVideo_files :: "int \<Rightarrow> int \<Rightarrow> files \<Rightarrow> exn + (files \<times> int option)" where
  "likeVideo_files idn userId st =
     (case find (\<lambda>v. id_v v = idn) (DB_FILE st) of
        None \<Rightarrow> Inl (JsError not_found)
      | Some vid \<Rightarrow>
          let vid1 = vid\<lparr>likesByUser_v := Some (or_default (likesByUser_v vid) [])\<rparr>;
              key = userId;
              vid2 = (if key \<notin> set (or_default (likesByUser_v vid1) [])
                      then vid1\<lparr>likesByUser_v := Some (or_default (likesByUser_v vid1) [] @ [key]),
                                likeCount_v := Some (or_default (likeCount_v vid1) 0 + 1)\<rparr>
                      else vid1)
          in Inr (st\<lparr>DB_FILE := replace_first (\<lambda>v. id_v v = idn) vid2 (DB_FILE st)\<rparr>,
                  likeCount_v vid2))"

definition addComment_files ::
  "int \<Rightarrow> jsstring \<Rightarrow> jsstring \<Rightarrow> int \<Rightarrow> jsstring \<Rightarrow> files \<Rightarrow> exn + (files \<times> comment)" where
  "addComment_files idn username text now stamp st =
     (case find (\<lambda>v. id_v v = idn) (DB_FILE st) of
        None \<Rightarrow> Inl (JsError not_found)
      | Some vid \<Rightarrow>
          let comment = \<lparr>id_c = now, user_c = Some username, text_c = text, at_c = stamp\<rparr>;
              vid' = vid\<lparr>comments_v := Some (or_default (comments_v vid) [] @ [comment])\<rparr>
          in Inr (st\<lparr>DB_FILE := replace_first (\<lambda>v. id_v v = idn) vid' (DB_FILE st)\<rparr>, comment))"

definition store_files :: "(jsstring \<Rightarrow> jsstring) \<Rightarrow> files store" where
  "store_files toLowerCase =
     \<lparr>getUser = getUser_files toLowerCase, createUser = createUser_files toLowerCase,
      listVideos = listVideos_files, likeVideo = likeVideo_files, addComment = addComment_files,
      ensureSeedVideos = (\<lambda>st. st)\<rparr>"

text \<open>\<^verbatim>\<open>POST /api/auth/signup\<close>, part_001 lines 315-333.\<close>

definition post_signup_dual ::
  "'s store \<Rightarrow> (jsstring \<Rightarrow> jsstring) \<Rightarrow> jsstring option \<Rightarrow> jsstring option \<Rightarrow> int
     \<Rightarrow> session \<Rightarrow> 's \<Rightarrow> 's \<times> session \<times> response" where
  "post_signup_dual store bcrypt_hash username password now sess st =
     (let un = or_default username []; pw = or_default password [] in
      if un = [] \<or> pw = [] then (st, sess, (400, Error missing_credentials))
      else if length un < 3 then (st, sess, (400, Error username_too_short))
      else if length pw < 6 then (st, sess, (400, Error password_too_short))
      else
        (case getUser store un st of
           Some existing \<Rightarrow> (st, sess, (409, Error username_taken))
         | None \<Rightarrow>
             (case createUser store un (bcrypt_hash pw) now st of
                Inr (st', user) \<Rightarrow>
                  (st', Some \<lparr>id_s = id_u user, username_s = username_u user\<rparr>,
                   (201, Signed (username_u user)))
              | Inl err \<Rightarrow>
                  (st, sess,
                   (500, Error (if err = JsError username_taken then username_taken
                                else signup_failed))))))"

text \<open>\<^verbatim>\<open>POST /api/videos/:id/like\<close>, part_001 lines 368-381.
  \<^verbatim>\<open>String(err).includes("ConditionalCheckFailed")\<close> holds of the exception of DynamoDB and
  of no \<^verbatim>\<open>Error\<close> the file store throws.\<close>

definition like_handler_dual :: "'s store \<Rightarrow> session_user \<Rightarrow> int \<Rightarrow> 's \<Rightarrow> 's \<times> response" where
  "like_handler_dual store u idn st =
     (case likeVideo store idn (id_s u) st of
        Inr (st', likeCount) \<Rightarrow> (st', (200, Liked idn likeCount))
      | Inl err \<Rightarrow>
          if err = ConditionalCheckFailedException then
            (let list = listVideos store st;
                 item = find (\<lambda>v. map_of v ''id'' = Some (Num idn)) list
             in (st, (200, Liked idn
                   (case item of
                      Some i \<Rightarrow> (case map_of i ''likeCount'' of Some (Num n) \<Rightarrow> Some n | _ \<Rightarrow> None)
                    | None \<Rightarrow> Some 0))))
          else (st, (404, Error not_found)))"

definition post_like_dual :: "'s store \<Rightarrow> session \<Rightarrow> int \<Rightarrow> 's \<Rightarrow> 's \<times> response" where
  "post_like_dual store sess idn st = requireAuth sess st (\<lambda>u. like_handler_dual store u idn st)"

text \<open>\<^verbatim>\<open>POST /api/videos/:id/comments\<close>, part_001 lines 390-400.\<close>

definition comment_handler_dual ::
  "'s store \<Rightarrow> session_user \<Rightarrow> int \<Rightarrow> jsstring option \<Rightarrow> int \<Rightarrow> jsstring \<Rightarrow> 's \<Rightarrow> 's \<times> response" where
  "comment_handler_dual store u idn body_text now stamp st =
     (let text = js_trim (or_default body_text []) in
      if text = [] then (st, (400, Error empty_comment))
      else if length text > 300 then (st, (400, Error too_long))
      else
        (case addComment store idn (username_s u) text now stamp st of
           Inr (st', comment) \<Rightarrow> (st', (201, Created comment))
         | Inl err \<Rightarrow> (st, (404, Error not_found))))"

definition post_comment_dual ::
  "'s store \<Rightarrow> session \<Rightarrow> int \<Rightarrow> jsstring option \<Rightarrow> int \<Rightarrow> jsstring \<Rightarrow> 's \<Rightarrow> 's \<times> response" where
  "post_comment_dual store sess idn body_text now stamp st =
     requireAuth sess st (\<lambda>u. comment_handler_dual store u idn body_text now stamp st)"

text \<open>\<^verbatim>\<open>GET /api/feed\<close>, part_001 lines 357-365.\<close>

definition get_feed_dual :: "'s store \<Rightarrow> 's \<Rightarrow> 's \<times> response" where
  "get_feed_dual store st =
     (let st' = ensureSeedVideos store st in (st', (200, Feed (listVideos store st'))))"

section \<open>Sequences of requests\<close>

text \<open>The tables before the first request.\<close>

definition empty_ddb :: ddb where
  "empty_ddb = \<lparr>USERS_TABLE = [], VIDEOS_TABLE = []\<rparr>"

text \<open>The states \<^verbatim>\<open>store.ensureSeedVideos\<close>, \<^verbatim>\<open>store.likeVideo\<close> and \<^verbatim>\<open>store.addComment\<close>
  reach from the empty tables; a call that throws leaves the tables as they are. No other
  method of the DynamoDB stores writes the videos table.\<close>

datatype store_call =
    EnsureSeedVideos
  | LikeVideo int int
  | AddComment int jsstring jsstring int jsstring

fun exec_ddb :: "ddb_video list \<Rightarrow> store_call \<Rightarrow> ddb \<Rightarrow> ddb" where
  "exec_ddb seed EnsureSeedVideos st = ensureSeedVideos_ddb seed st"
| "exec_ddb seed (LikeVideo idn userId) st =
     (case likeVideo_ddb idn userId st of Inl e \<Rightarrow> st | Inr (st', n) \<Rightarrow> st')"
| "exec_ddb seed (AddComment idn username text now stamp) st =
     (case addComment_ddb idn username text now stamp st of Inl e \<Rightarrow> st | Inr (st', c) \<Rightarrow> st')"

definition run_ddb :: "ddb_video list \<Rightarrow> store_call list \<Rightarrow> ddb" where
  "run_ddb seed calls = foldl (\<lambda>st c. exec_ddb seed c st) empty_ddb calls"

text \<open>The user file, or the users table, after signup requests sent one after the other;
  a request is the two body fields and the time of the request.\<close>

type_synonym signup_request = "jsstring option \<times> jsstring option \<times> int"

definition signups_file ::
  "(jsstring \<Rightarrow> jsstring) \<Rightarrow> (jsstring \<Rightarrow> jsstring) \<Rightarrow> signup_request list \<Rightarrow> user list" where
  "signups_file toLowerCase bcrypt_hash reqs =
     foldl (\<lambda>users (username, password, now).
              fst (post_signup_file toLowerCase bcrypt_hash username password now None users))
       [] reqs"

definition signups_dual ::
  "'s store \<Rightarrow> (jsstring \<Rightarrow> jsstring) \<Rightarrow> 's \<Rightarrow> signup_request list \<Rightarrow> 's" where
  "signups_dual store bcrypt_hash st0 reqs =
     foldl (\<lambda>st (username, password, now).
              fst (post_signup_dual store bcrypt_hash username password now None st))
       st0 reqs"

text \<open>The document \<^verbatim>\<open>feed.json\<close> after like requests sent one after the other to the
  seeded document, in part_002 and in part_001 over the file store; a request is its
  session and the id in its path.\<close>

type_synonym like_request = "session \<times> int"

definition likes_file :: "like_request list \<Rightarrow> video list" where
  "likes_file reqs = foldl (\<lambda>db (sess, idn). fst (post_like_file sess idn db)) seed_file reqs"

definition likes_dual :: "(jsstring \<Rightarrow> jsstring) \<Rightarrow> like_request list \<Rightarrow> files" where
  "likes_dual toLowerCase reqs =
     foldl (\<lambda>st (sess, idn). fst (post_like_dual (store_files toLowerCase) sess idn st))
       seed_files reqs"

section \<open>Invariants\<close>

text \<open>The stored comment counter of an item, read as \<^verbatim>\<open>if_not_exists(commentCount, :zero)\<close>
  reads it, is the length of the comment list, read as
  \<^verbatim>\<open>if_not_exists(comments, :empty)\<close> reads it.\<close>

definition counter_ok :: "ddb_video \<Rightarrow> bool" where
  "counter_ok v \<longleftrightarrow> or_default (commentCount_d v) 0 = int (length (or_default (comments_d v) []))"

text \<open>What both like handlers of the file backends do to the video they found (part_002
  lines 121-126, part_001 lines 267-272), and the invariant of a video: its
  \<^verbatim>\<open>likesByUser\<close> is there, and \<^verbatim>\<open>likeCount\<close> is the number of its keys.\<close>

definition liked_by :: "int \<Rightarrow> video \<Rightarrow> video" where
  "liked_by uid vid =
     (let vid1 = vid\<lparr>likesByUser_v := Some (or_default (likesByUser_v vid) [])\<rparr>
      in if uid \<notin> set (or_default (likesByUser_v vid1) [])
         then vid1\<lparr>likesByUser_v := Some (or_default (likesByUser_v vid1) [] @ [uid]),
                   likeCount_v := Some (or_default (likeCount_v vid1) 0 + 1)\<rparr>
         else vid1)"

definition count_ok :: "video \<Rightarrow> bool" where
  "count_ok v \<longleftrightarrow>
     (case likesByUser_v v of
        None \<Rightarrow> False
      | Some m \<Rightarrow> distinct m \<and> likeCount_v v = Some (int (length m)))"

section \<open>Concrete requests and states\<close>

text \<open>Library functions for the examples: \<^verbatim>\<open>toLowerCase\<close> on strings of ASCII letters, and
  stand-ins for \<^verbatim>\<open>bcrypt.hash\<close> and \<^verbatim>\<open>bcrypt.compare\<close>.\<close>

definition toLowerCase_ascii :: "jsstring \<Rightarrow> jsstring" where
  "toLowerCase_ascii s = map (\<lambda>c. if 0x41 \<le> c \<and> c \<le> 0x5A then c + 0x20 else c) s"

definition salted :: "jsstring \<Rightarrow> jsstring" where
  "salted p = ascii ''$2b$10$'' @ p"

definition salted_compare :: "jsstring \<Rightarrow> jsstring \<Rightarrow> bool" where
  "salted_compare p h \<longleftrightarrow> salted p = h"

text \<open>Two session users, a comment text with white space around it, and a time stamp.\<close>

definition alice :: session_user where
  "alice = \<lparr>id_s = 7, username_s = ascii ''alice''\<rparr>"

definition bob :: session_user where
  "bob = \<lparr>id_s = 8, username_s = ascii ''bob''\<rparr>"

definition hi :: jsstring where
  "hi = ascii ''hi''"

definition padded_hi :: jsstring where
  "padded_hi = [0x20, 0x9, 0x68, 0x69, 0xA0, 0xA]"

definition noon :: jsstring where
  "noon = ascii ''2025-01-01T12:00:00.000Z''"

definition hi_comment :: comment where
  "hi_comment = \<lparr>id_c = 1000, user_c = Some (ascii ''alice''), text_c = hi, at_c = noon\<rparr>"

text \<open>States reached by one or two requests.\<close>

definition liked_once :: "video list" where
  "liked_once = fst (post_like_file (Some alice) 1 seed_file)"

definition seeded_ddb :: ddb where
  "seeded_ddb = fst (get_feed_ddb empty_ddb)"

definition ddb_liked_once :: ddb where
  "ddb_liked_once = fst (post_like_ddb (Some alice) 1 seeded_ddb)"

definition commented_ddb :: ddb where
  "commented_ddb = run_ddb seed_ddb [EnsureSeedVideos, AddComment 1 (ascii ''alice'') hi 1000 (ascii ''2025-01-01T00:00:00.000Z'')]"

definition one_user :: "user list" where
  "one_user = fst (post_signup_file toLowerCase_ascii salted (Some (ascii ''alice''))
                     (Some (ascii ''secret1'')) 1000 None [])"

definition files_one_user :: files where
  "files_one_user = \<lparr>USERS_FILE = one_user, DB_FILE = seed_file\<rparr>"

definition ddb_one_user :: ddb where
  "ddb_one_user = \<lparr>USERS_TABLE = one_user, VIDEOS_TABLE = []\<rparr>"

definition two_signups :: "signup_request list" where
  "two_signups = [(Some (ascii ''alice''), Some (ascii ''secret1''), 1000),
                  (Some (ascii ''alice''), Some (ascii ''other12''), 2000)]"

definition commented_file :: "video list" where
  "commented_file = fst (post_comment_file (Some alice) 1 (Some padded_hi) 1000 noon seed_file)"

definition commented_seeded_ddb :: ddb where
  "commented_seeded_ddb = fst (post_comment_ddb (Some alice) 1 (Some padded_hi) 1000 noon seeded_ddb)"

definition some_likes :: "like_request list" where
  "some_likes = [(Some alice, 1), (Some alice, 1), (None, 2), (Some bob, 1), (Some alice, 9)]"

section \<open>Lemmas on the list helpers\<close>

lemma replace_first_same: "find P db = Some x \<Longrightarrow> replace_first P x db = db"
  by (induction db) (auto split: if_splits)

lemma find_replace_first: "find P db = Some x \<Longrightarrow> P y \<Longrightarrow> find P (replace_first P y db) = Some y"
  by (induction db) (auto split: if_splits)

lemma length_replace_first: "length (replace_first P y db) = length db"
  by (induction db) auto

lemma find_id_v: "find (\<lambda>v. id_v v = idn) db = Some vid \<Longrightarrow> id_v vid = idn"
  by (induction db) (auto split: if_splits)

section \<open>Likes in the file backend\<close>

lemma like_handler_file_present:
  assumes "find (\<lambda>v. id_v v = idn) db = Some vid"
      and "id_s u \<in> set (or_default (likesByUser_v vid) [])"
  shows "like_handler_file u idn db = (db, (200, Liked idn (likeCount_v vid)))"
proof -
  from assms(2) obtain m where m: "likesByUser_v vid = Some m"
    by (cases "likesByUser_v vid") (auto simp: or_default_def)
  then have "vid\<lparr>likesByUser_v := Some (or_default (likesByUser_v vid) [])\<rparr> = vid"
    by (simp add: or_default_def)
  with assms show ?thesis
    by (simp add: like_handler_file_def Let_def replace_first_same)
qed

lemma like_handler_file_absent:
  assumes "find (\<lambda>v. id_v v = idn) db = Some vid"
      and "id_s u \<notin> set (or_default (likesByUser_v vid) [])"
  shows "like_handler_file u idn db =
          (replace_first (\<lambda>v. id_v v = idn)
             (vid\<lparr>likesByUser_v := Some (or_default (likesByUser_v vid) [] @ [id_s u]),
                  likeCount_v := Some (or_default (likeCount_v vid) 0 + 1)\<rparr>) db,
           (200, Liked idn (Some (or_default (likeCount_v vid) 0 + 1))))"
  using assms by (simp add: like_handler_file_def Let_def or_default_def)

lemma like_handler_file_twice:
  "like_handler_file u idn (fst (like_handler_file u idn db)) = like_handler_file u idn db"
proof (cases "find (\<lambda>v. id_v v = idn) db")
  case None
  then show ?thesis by (simp add: like_handler_file_def)
next
  case (Some vid)
  show ?thesis
  proof (cases "id_s u \<in> set (or_default (likesByUser_v vid) [])")
    case True
    with Some show ?thesis by (simp add: like_handler_file_present)
  next
    case False
    let ?v = "vid\<lparr>likesByUser_v := Some (or_default (likesByUser_v vid) [] @ [id_s u]),
                  likeCount_v := Some (or_default (likeCount_v vid) 0 + 1)\<rparr>"
    have idv: "id_v ?v = idn" using find_id_v[OF Some] by simp
    have f: "find (\<lambda>v. id_v v = idn) (replace_first (\<lambda>v. id_v v = idn) ?v db) = Some ?v"
      using find_replace_first[OF Some, of ?v] idv by simp
    have p: "id_s u \<in> set (or_default (likesByUser_v ?v) [])" by (simp add: or_default_def)
    show ?thesis
      using like_handler_file_present[OF f p] by (simp add: like_handler_file_absent[OF Some False])
  qed
qed

lemma like_handler_file_repeat:
  "((\<lambda>d. fst (like_handler_file u idn d)) ^^ Suc n) db = fst (like_handler_file u idn db)"
  by (induction n) (simp_all add: like_handler_file_twice)

text \<open>
  Claim C1, as the minimal backend refutes it: \<^verbatim>\<open>POST /api/videos/1/like\<close> of
  tiktokbackend.js keeps no witness of who liked. On the seeded document the first call
  answers likeCount 1 and the second call answers likeCount 2: two calls raise the
  counter by two.
\<close>

theorem like_min_counts_every_call:
  "snd (post_like_min 1 seed_min) = (200, Liked 1 (Some 1))
   \<and> snd (post_like_min 1 (fst (post_like_min 1 seed_min))) = (200, Liked 1 (Some 2))"
  by (simp add: post_like_min_def seed_min_def or_default_def)

text \<open>
  Claim C1, amended to the backend that keeps the witness (part_002): for a signed-in user
  \<open>u\<close> and an existing video whose likeCount is a safe integer (of absolute value below
  \<open>2 ^ 53\<close>, where the addition of the code is exact), a like whose user is in
  \<^verbatim>\<open>likesByUser\<close> leaves the document as it is and answers the stored likeCount; a like
  whose user is not there adds the user to \<^verbatim>\<open>likesByUser\<close> and raises likeCount by exactly
  1; and any number \<open>n + 1\<close> of calls in a row leaves the document, and answers, as one
  call does.
\<close>

theorem like_file_idempotent_per_user:
  assumes "find (\<lambda>v. id_v v = idn) db = Some vid"
      and "\<bar>or_default (likeCount_v vid) 0\<bar> < 2 ^ 53"
  shows "(id_s u \<in> set (or_default (likesByUser_v vid) []) \<longrightarrow>
            post_like_file (Some u) idn db = (db, (200, Liked idn (likeCount_v vid))))
       \<and> (id_s u \<notin> set (or_default (likesByUser_v vid) []) \<longrightarrow>
            post_like_file (Some u) idn db =
              (replace_first (\<lambda>v. id_v v = idn)
                 (vid\<lparr>likesByUser_v := Some (or_default (likesByUser_v vid) [] @ [id_s u]),
                      likeCount_v := Some (or_default (likeCount_v vid) 0 + 1)\<rparr>) db,
               (200, Liked idn (Some (or_default (likeCount_v vid) 0 + 1)))))
       \<and> ((\<lambda>d. fst (post_like_file (Some u) idn d)) ^^ Suc n) db
            = fst (post_like_file (Some u) idn db)
       \<and> post_like_file (Some u) idn (((\<lambda>d. fst (post_like_file (Some u) idn d)) ^^ Suc n) db)
            = post_like_file (Some u) idn db"
proof -
  have route: "post_like_file (Some u) idn = like_handler_file u idn" for idn
    by (rule ext) (simp add: post_like_file_def requireAuth_def)
  show ?thesis
    unfolding route
    using like_handler_file_present[OF assms(1)] like_handler_file_absent[OF assms(1)]
    by (simp only: like_handler_file_repeat like_handler_file_twice) blast
qed

theorem like_file_idempotent_per_user_witness:
  "find (\<lambda>v. id_v v = 1) seed_file = Some (hd seed_file)
   \<and> \<bar>or_default (likeCount_v (hd seed_file)) 0\<bar> < 2 ^ 53
   \<and> id_s alice \<notin> set (or_default (likesByUser_v (hd seed_file)) [])
   \<and> snd (post_like_file (Some alice) 1 seed_file) = (200, Liked 1 (Some 1))
   \<and> snd (post_like_file (Some alice) 1
         (((\<lambda>d. fst (post_like_file (Some alice) 1 d)) ^^ Suc 2) seed_file)) = (200, Liked 1 (Some 1))
   \<and> find (\<lambda>v. id_v v = 1) liked_once = Some (hd liked_once)
   \<and> \<bar>or_default (likeCount_v (hd liked_once)) 0\<bar> < 2 ^ 53
   \<and> id_s alice \<in> set (or_default (likesByUser_v (hd liked_once)) [])
   \<and> post_like_file (Some alice) 1 liked_once = (liked_once, (200, Liked 1 (Some 1)))"
proof -
  have f: "find (\<lambda>v. id_v v = 1) seed_file = Some (hd seed_file)"
    by (simp add: seed_file_def)
  have a: "id_s alice \<notin> set (or_default (likesByUser_v (hd seed_file)) [])"
    by (simp add: seed_file_def or_default_def)
  have c: "or_default (likeCount_v (hd seed_file)) 0 = 0"
    by (simp add: seed_file_def or_default_def)
  have b: "\<bar>or_default (likeCount_v (hd seed_file)) 0\<bar> < 2 ^ 53"
    by (simp add: c)
  note t = like_file_idempotent_per_user[OF f b, of alice 2]
  from t a have r1: "snd (post_like_file (Some alice) 1 seed_file)
                      = (200, Liked 1 (Some (or_default (likeCount_v (hd seed_file)) 0 + 1)))"
    by simp
  from t have r2: "post_like_file (Some alice) 1
                     (((\<lambda>d. fst (post_like_file (Some alice) 1 d)) ^^ Suc 2) seed_file)
                   = post_like_file (Some alice) 1 seed_file"
    by blast
  have l: "hd liked_once = (hd seed_file)\<lparr>likesByUser_v := Some [7], likeCount_v := Some 1\<rparr>"
    by (simp add: liked_once_def post_like_file_def requireAuth_def like_handler_file_def
        seed_file_def or_default_def alice_def)
  have f': "find (\<lambda>v. id_v v = 1) liked_once = Some (hd liked_once)"
    by (simp add: liked_once_def post_like_file_def requireAuth_def like_handler_file_def
        seed_file_def or_default_def alice_def)
  have p: "id_s alice \<in> set (or_default (likesByUser_v (hd liked_once)) [])"
    by (simp add: l or_default_def alice_def)
  have c': "likeCount_v (hd liked_once) = Some 1"
    by (simp add: l)
  have b': "\<bar>or_default (likeCount_v (hd liked_once)) 0\<bar> < 2 ^ 53"
    by (simp add: c' or_default_def)
  from like_file_idempotent_per_user[OF f' b', of alice 0] p c'
  have r3: "post_like_file (Some alice) 1 liked_once = (liked_once, (200, Liked 1 (Some 1)))"
    by simp
  show ?thesis
    unfolding r2 using f b a r1 c f' b' p r3 by simp
qed

section \<open>A repeated like on DynamoDB\<close>

lemma seeded_ddb_eq: "seeded_ddb = \<lparr>USERS_TABLE = [], VIDEOS_TABLE = seed_ddb\<rparr>"
  by (simp add: Let_def seeded_ddb_def get_feed_ddb_def ensureSeedVideos_ddb_def empty_ddb_def
      seed_ddb_def PutItem_def seed_item_def)

lemma ddb_liked_once_eq:
  "ddb_liked_once = \<lparr>USERS_TABLE = [],
      VIDEOS_TABLE = (hd seed_ddb)\<lparr>likeCount_d := Some 1, likes_d := Some [7]\<rparr> # tl seed_ddb\<rparr>"
  by (simp add: Let_def ddb_liked_once_def seeded_ddb_eq post_like_ddb_def requireAuth_def
      like_handler_ddb_def likeVideo_ddb_def UpdateItem_def GetItem_def PutItem_def
      seed_ddb_def seed_item_def or_default_def alice_def)

lemma like_handler_ddb_rejected:
  "likeVideo_ddb idn (id_s u) st = Inl ConditionalCheckFailedException \<Longrightarrow>
   like_handler_ddb u idn st = (st, (404, Error not_found))"
  by (simp add: like_handler_ddb_def)

lemma likeVideo_ddb_rejected_iff:
  "likeVideo_ddb idn uid st = Inl e \<longleftrightarrow>
     e = ConditionalCheckFailedException \<and>
     (\<exists>v l. GetItem id_d idn (VIDEOS_TABLE st) = Some v \<and> likes_d v = Some l \<and> uid \<in> set l)"
  by (auto simp: likeVideo_ddb_def UpdateItem_def Let_def or_default_def bare_video_def
      split: option.splits if_splits)

lemma GetItem_key: "GetItem key k tbl = Some v \<Longrightarrow> key v = k"
  unfolding GetItem_def by (induction tbl) (auto split: if_splits)

lemma find_map: "find P (map f xs) = map_option f (find (P \<circ> f) xs)"
  by (induction xs) auto

lemma like_handler_dual_rejected:
  assumes "likeVideo_ddb idn (id_s u) st = Inl e"
  shows "\<exists>v. GetItem id_d idn (VIDEOS_TABLE st) = Some v \<and>
     like_handler_dual store_ddb u idn st = (st, (200, Liked idn (Some (or_default (likeCount_d v) 0))))"
proof -
  from assms obtain v l where e: "e = ConditionalCheckFailedException"
    and v: "GetItem id_d idn (VIDEOS_TABLE st) = Some v" and "likes_d v = Some l" "id_s u \<in> set l"
    by (auto simp: likeVideo_ddb_rejected_iff)
  have "find (\<lambda>x. map_of x ''id'' = Some (Num idn)) (listVideos_ddb st) = Some (public_ddb v)"
    using v by (simp add: listVideos_ddb_def find_map GetItem_def comp_def public_ddb_def)
  then show ?thesis
    using assms e v by (simp add: like_handler_dual_def store_ddb_def public_ddb_def)
qed

text \<open>
  Claim C2 on part_000: a signed-in user likes video 1 of the seeded table twice. The
  first request answers likeCount 1. On the second, DynamoDB rejects the conditional
  update (\<^verbatim>\<open>likes\<close> holds the user), and the route answers 404 \<^verbatim>\<open>not_found\<close>: the
  rejection reaches the caller as an error. Lemma \<open>like_handler_dual_rejected\<close> above is
  the route of part_001 on the same rejection: 200 with the stored likeCount.
\<close>

theorem like_ddb_repeat_answers_not_found:
  "snd (post_like_ddb (Some alice) 1 seeded_ddb) = (200, Liked 1 (Some 1))
   \<and> likeVideo_ddb 1 (id_s alice) ddb_liked_once = Inl ConditionalCheckFailedException
   \<and> post_like_ddb (Some alice) 1 ddb_liked_once = (ddb_liked_once, (404, Error not_found))"
  by (simp add: Let_def ddb_liked_once_eq seeded_ddb_eq post_like_ddb_def requireAuth_def
      like_handler_ddb_def likeVideo_ddb_def UpdateItem_def GetItem_def PutItem_def
      seed_ddb_def seed_item_def or_default_def alice_def)

section \<open>The comment counter on DynamoDB\<close>

lemma set_replace_first: "set (replace_first P y xs) \<subseteq> insert y (set xs)"
  by (induction xs) auto

lemma set_PutItem: "set (PutItem key item tbl) \<subseteq> insert item (set tbl)"
  using set_replace_first[of "\<lambda>x. key x = key item" item tbl] by (auto simp: PutItem_def)

lemma GetItem_mem: "GetItem key k tbl = Some v \<Longrightarrow> v \<in> set tbl"
  unfolding GetItem_def by (induction tbl) (auto split: if_splits)

lemma GetItem_PutItem: "GetItem key (key item) (PutItem key item tbl) = Some item"
proof (cases "list_ex (\<lambda>x. key x = key item) tbl")
  case True
  then have "find (\<lambda>x. key x = key item) tbl \<noteq> None"
    by (auto simp: find_None_iff list_ex_iff)
  then obtain x where "find (\<lambda>x. key x = key item) tbl = Some x"
    by auto
  then show ?thesis using True
    by (simp add: GetItem_def PutItem_def find_replace_first)
next
  case False
  then have "find (\<lambda>x. key x = key item) (tbl @ [item]) = Some item"
    by (induction tbl) auto
  then show ?thesis using False by (simp add: GetItem_def PutItem_def)
qed

lemma counter_ok_bare: "counter_ok (bare_video k)"
  by (simp add: counter_ok_def bare_video_def or_default_def)

lemma counter_ok_seed_item: "counter_ok (seed_item k a b c d)"
  by (simp add: counter_ok_def seed_item_def or_default_def)

lemma counter_ok_old:
  "\<forall>v\<in>set tbl. counter_ok v \<Longrightarrow> counter_ok (or_default (GetItem id_d k tbl) (bare_video k))"
  by (cases "GetItem id_d k tbl") (auto simp: or_default_def counter_ok_bare dest: GetItem_mem)

lemma foldl_PutItem_ok:
  "\<forall>v\<in>set seed. counter_ok v \<Longrightarrow> \<forall>v\<in>set tbl. counter_ok v \<Longrightarrow>
   \<forall>v\<in>set (foldl (\<lambda>tbl v. PutItem id_d v tbl) tbl seed). counter_ok v"
proof (induction seed arbitrary: tbl)
  case Nil
  then show ?case by simp
next
  case (Cons a seed)
  have "\<forall>v\<in>set (PutItem id_d a tbl). counter_ok v"
    using set_PutItem[of id_d a tbl] Cons.prems by auto
  with Cons show ?case by simp
qed

lemma exec_ddb_ok:
  assumes seed: "\<forall>v\<in>set seed. counter_ok v" and st: "\<forall>v\<in>set (VIDEOS_TABLE st). counter_ok v"
  shows "\<forall>v\<in>set (VIDEOS_TABLE (exec_ddb seed c st)). counter_ok v"
proof (cases c)
  case EnsureSeedVideos
  then show ?thesis
    using foldl_PutItem_ok[OF seed st] st by (simp add: ensureSeedVideos_ddb_def)
next
  case (LikeVideo idn userId)
  let ?old = "or_default (GetItem id_d idn (VIDEOS_TABLE st)) (bare_video idn)"
  let ?new = "?old\<lparr>likeCount_d := Some (or_default (likeCount_d ?old) 0 + 1),
                    likes_d := Some (or_default (likes_d ?old) [] @ [userId])\<rparr>"
  have "counter_ok ?new" using counter_ok_old[OF st, of idn] by (simp add: counter_ok_def)
  then have "\<forall>v\<in>set (PutItem id_d ?new (VIDEOS_TABLE st)). counter_ok v"
    using set_PutItem[of id_d ?new "VIDEOS_TABLE st"] st by auto
  then show ?thesis
    using LikeVideo st by (simp add: likeVideo_ddb_def UpdateItem_def Let_def)
next
  case (AddComment idn username t now stamp)
  let ?old = "or_default (GetItem id_d idn (VIDEOS_TABLE st)) (bare_video idn)"
  let ?c = "\<lparr>id_c = now, user_c = Some username, text_c = t, at_c = stamp\<rparr>"
  let ?new = "?old\<lparr>comments_d := Some (or_default (comments_d ?old) [] @ [?c]),
                    commentCount_d := Some (or_default (commentCount_d ?old) 0 + 1)\<rparr>"
  have "counter_ok ?new"
    using counter_ok_old[OF st, of idn] by (simp add: counter_ok_def or_default_def)
  then have "\<forall>v\<in>set (PutItem id_d ?new (VIDEOS_TABLE st)). counter_ok v"
    using set_PutItem[of id_d ?new "VIDEOS_TABLE st"] st by auto
  then show ?thesis
    using AddComment by (simp add: addComment_ddb_def UpdateItem_def Let_def)
qed

lemma run_ddb_ok:
  assumes seed: "\<forall>v\<in>set seed. counter_ok v"
  shows "\<forall>v\<in>set (VIDEOS_TABLE (run_ddb seed calls)). counter_ok v"
proof -
  have "\<forall>v\<in>set (VIDEOS_TABLE st). counter_ok v \<Longrightarrow>
        \<forall>v\<in>set (VIDEOS_TABLE (foldl (\<lambda>st c. exec_ddb seed c st) st calls)). counter_ok v" for st
  proof (induction calls arbitrary: st)
    case Nil
    then show ?case by simp
  next
    case (Cons c calls)
    from exec_ddb_ok[OF seed Cons.prems, of c] Cons.IH show ?case by simp
  qed
  from this[of empty_ddb] show ?thesis by (simp add: run_ddb_def empty_ddb_def)
qed

lemma seeds_ok: "\<forall>v\<in>set seed_ddb. counter_ok v" "\<forall>v\<in>set seed_dual. counter_ok v"
  by (simp_all add: seed_ddb_def seed_dual_def counter_ok_seed_item)

lemma addComment_ddb_appends:
  assumes "GetItem id_d idn (VIDEOS_TABLE st) = Some v"
  shows "\<exists>st' v'. addComment_ddb idn username text now stamp st
            = Inr (st', \<lparr>id_c = now, user_c = Some username, text_c = text, at_c = stamp\<rparr>)
          \<and> GetItem id_d idn (VIDEOS_TABLE st') = Some v'
          \<and> or_default (comments_d v') []
              = or_default (comments_d v) [] @ [\<lparr>id_c = now, user_c = Some username, text_c = text, at_c = stamp\<rparr>]
          \<and> commentCount_d v' = Some (or_default (commentCount_d v) 0 + 1)"
proof -
  let ?c = "\<lparr>id_c = now, user_c = Some username, text_c = text, at_c = stamp\<rparr>"
  let ?new = "v\<lparr>comments_d := Some (or_default (comments_d v) [] @ [?c]),
                  commentCount_d := Some (or_default (commentCount_d v) 0 + 1)\<rparr>"
  have k: "id_d ?new = idn" using GetItem_key[OF assms] by simp
  have "GetItem id_d idn (PutItem id_d ?new (VIDEOS_TABLE st)) = Some ?new"
    using GetItem_PutItem[of id_d ?new "VIDEOS_TABLE st"] k by simp
  then show ?thesis
    using assms by (simp add: addComment_ddb_def UpdateItem_def Let_def or_default_def)
qed


text \<open>
  Claim C3. A state of the videos table is reachable when calls of
  \<^verbatim>\<open>store.ensureSeedVideos\<close>, \<^verbatim>\<open>store.likeVideo\<close> and \<^verbatim>\<open>store.addComment\<close> (the only writers
  of the table, in part_000 with \<open>seed_ddb\<close> and in part_001 with \<open>seed_dual\<close>) lead to
  it from the empty table. In every reachable state, for every video: the
  \<^verbatim>\<open>commentCount\<close> that \<^verbatim>\<open>store.listVideos\<close> exposes is the length of its \<^verbatim>\<open>comments\<close>, and the
  stored counter (\<^verbatim>\<open>if_not_exists(commentCount, 0)\<close>) is that length too. On an existing
  video \<^verbatim>\<open>store.addComment\<close> succeeds, returns the comment it built, appends exactly that
  comment to the list, and stores a counter equal to the new length.
\<close>

theorem comment_counter_equals_length:
  assumes reach: "st = run_ddb seed calls" and seed: "seed = seed_ddb \<or> seed = seed_dual"
  shows "(\<forall>v\<in>set (VIDEOS_TABLE st).
            map_of (public_ddb v) ''commentCount''
              = Some (Num (int (length (or_default (comments_d v) []))))
          \<and> or_default (commentCount_d v) 0 = int (length (or_default (comments_d v) [])))
       \<and> listVideos_ddb st = map public_ddb (VIDEOS_TABLE st)
       \<and> (\<forall>v. GetItem id_d idn (VIDEOS_TABLE st) = Some v \<longrightarrow>
            (\<exists>st' v' c. addComment_ddb idn username text now stamp st = Inr (st', c)
               \<and> c = \<lparr>id_c = now, user_c = Some username, text_c = text, at_c = stamp\<rparr>
               \<and> GetItem id_d idn (VIDEOS_TABLE st') = Some v'
               \<and> or_default (comments_d v') [] = or_default (comments_d v) [] @ [c]
               \<and> length (or_default (comments_d v') []) = length (or_default (comments_d v) []) + 1
               \<and> commentCount_d v' = Some (int (length (or_default (comments_d v') [])))
               \<and> (\<forall>w\<in>set (VIDEOS_TABLE st').
                     or_default (commentCount_d w) 0 = int (length (or_default (comments_d w) [])))))"
proof -
  have sok: "\<forall>v\<in>set seed. counter_ok v" using seed seeds_ok by auto
  have inv: "\<forall>v\<in>set (VIDEOS_TABLE st). counter_ok v"
    unfolding reach by (rule run_ddb_ok[OF sok])
  have a: "\<forall>v\<in>set (VIDEOS_TABLE st).
            map_of (public_ddb v) ''commentCount''
              = Some (Num (int (length (or_default (comments_d v) []))))
          \<and> or_default (commentCount_d v) 0 = int (length (or_default (comments_d v) []))"
    using inv by (simp add: public_ddb_def counter_ok_def)
  have c: "\<exists>st' v' c. addComment_ddb idn username text now stamp st = Inr (st', c)
               \<and> c = \<lparr>id_c = now, user_c = Some username, text_c = text, at_c = stamp\<rparr>
               \<and> GetItem id_d idn (VIDEOS_TABLE st') = Some v'
               \<and> or_default (comments_d v') [] = or_default (comments_d v) [] @ [c]
               \<and> length (or_default (comments_d v') []) = length (or_default (comments_d v) []) + 1
               \<and> commentCount_d v' = Some (int (length (or_default (comments_d v') [])))
               \<and> (\<forall>w\<in>set (VIDEOS_TABLE st').
                     or_default (commentCount_d w) 0 = int (length (or_default (comments_d w) [])))"
    if g: "GetItem id_d idn (VIDEOS_TABLE st) = Some v" for v
  proof -
    let ?c = "\<lparr>id_c = now, user_c = Some username, text_c = text, at_c = stamp\<rparr>"
    from addComment_ddb_appends[OF g, of username "text" now stamp]
    obtain st' v' where r: "addComment_ddb idn username text now stamp st = Inr (st', ?c)"
      and g': "GetItem id_d idn (VIDEOS_TABLE st') = Some v'"
      and l: "or_default (comments_d v') [] = or_default (comments_d v) [] @ [?c]"
      and n: "commentCount_d v' = Some (or_default (commentCount_d v) 0 + 1)"
      by blast
    have "counter_ok v" using inv GetItem_mem[OF g] by blast
    then have n': "commentCount_d v' = Some (int (length (or_default (comments_d v') [])))"
      using n l by (simp add: counter_ok_def)
    have "exec_ddb seed (AddComment idn username text now stamp) st = st'"
      using r by simp
    then have "\<forall>w\<in>set (VIDEOS_TABLE st'). counter_ok w"
      using exec_ddb_ok[OF sok inv, of "AddComment idn username text now stamp"] by simp
    then have "\<forall>w\<in>set (VIDEOS_TABLE st').
                 or_default (commentCount_d w) 0 = int (length (or_default (comments_d w) []))"
      by (simp add: counter_ok_def)
    with r g' l n' show ?thesis by auto
  qed
  show ?thesis using a c by (simp add: listVideos_ddb_def)
qed


lemma commented_ddb_eq:
  "commented_ddb = \<lparr>USERS_TABLE = [],
      VIDEOS_TABLE = (hd seed_ddb)\<lparr>comments_d := Some [\<lparr>id_c = 1000, user_c = Some (ascii ''alice''),
                 text_c = hi, at_c = ascii ''2025-01-01T00:00:00.000Z''\<rparr>],
               commentCount_d := Some 1\<rparr> # tl seed_ddb\<rparr>"
  by (simp add: commented_ddb_def run_ddb_def empty_ddb_def ensureSeedVideos_ddb_def
      addComment_ddb_def UpdateItem_def GetItem_def PutItem_def Let_def
      seed_ddb_def seed_item_def or_default_def)

theorem comment_counter_equals_length_witness:
  "hd (VIDEOS_TABLE commented_ddb) \<in> set (VIDEOS_TABLE commented_ddb)
   \<and> GetItem id_d 1 (VIDEOS_TABLE commented_ddb) = Some (hd (VIDEOS_TABLE commented_ddb))
   \<and> length (or_default (comments_d (hd (VIDEOS_TABLE commented_ddb))) []) = 1
   \<and> or_default (commentCount_d (hd (VIDEOS_TABLE commented_ddb))) 0 = 1
   \<and> map_of (public_ddb (hd (VIDEOS_TABLE commented_ddb))) ''commentCount'' = Some (Num 1)
   \<and> (\<exists>st' v' c. addComment_ddb 1 (ascii ''bob'') hi 1001 (ascii ''2025-01-01T00:00:01.000Z'')
                       commented_ddb = Inr (st', c)
          \<and> GetItem id_d 1 (VIDEOS_TABLE st') = Some v'
          \<and> length (or_default (comments_d v') []) = 2
          \<and> commentCount_d v' = Some 2)"
proof -
  let ?v = "hd (VIDEOS_TABLE commented_ddb)"
  have m: "?v \<in> set (VIDEOS_TABLE commented_ddb)"
    by (simp add: commented_ddb_eq)
  have g: "GetItem id_d 1 (VIDEOS_TABLE commented_ddb) = Some ?v"
    by (simp add: commented_ddb_eq GetItem_def seed_ddb_def seed_item_def)
  have l: "length (or_default (comments_d ?v) []) = 1"
    by (simp add: commented_ddb_eq or_default_def)
  note t = comment_counter_equals_length[OF commented_ddb_def disjI1[OF refl], of 1 "ascii ''bob''" hi
      1001 "ascii ''2025-01-01T00:00:01.000Z''"]
  from t m l have a: "or_default (commentCount_d ?v) 0 = 1"
    and b: "map_of (public_ddb ?v) ''commentCount'' = Some (Num 1)"
    by auto
  from t g obtain st' v' c where
    "addComment_ddb 1 (ascii ''bob'') hi 1001 (ascii ''2025-01-01T00:00:01.000Z'') commented_ddb
       = Inr (st', c)"
    "GetItem id_d 1 (VIDEOS_TABLE st') = Some v'"
    "length (or_default (comments_d v') []) = length (or_default (comments_d ?v) []) + 1"
    "commentCount_d v' = Some (int (length (or_default (comments_d v') [])))"
    by blast
  with l have "\<exists>st' v' c. addComment_ddb 1 (ascii ''bob'') hi 1001 (ascii ''2025-01-01T00:00:01.000Z'')
                       commented_ddb = Inr (st', c)
          \<and> GetItem id_d 1 (VIDEOS_TABLE st') = Some v'
          \<and> length (or_default (comments_d v') []) = 2
          \<and> commentCount_d v' = Some 2"
    by auto
  with m g l a b show ?thesis by blast
qed

section \<open>Signup and the uniqueness of usernames\<close>

lemma one_user_eq:
  "one_user = [\<lparr>id_u = 1000, username_u = ascii ''alice'', passwordHash_u = salted (ascii ''secret1''),
                courses_u = None\<rparr>]"
  by (simp add: one_user_def post_signup_file_def or_default_def Let_def ascii_def)

lemma list_ex_lower:
  "un \<in> username_u ` set users \<Longrightarrow> list_ex (\<lambda>u. f (username_u u) = f un) users"
  by (auto simp: list_ex_iff)

lemma signup_file_taken:
  assumes "or_default username [] \<in> username_u ` set users"
  shows "fst (post_signup_file lower hash username password now sess users) = users"
    and "3 \<le> length (or_default username []) \<Longrightarrow> 6 \<le> length (or_default password []) \<Longrightarrow>
         post_signup_file lower hash username password now sess users
           = (users, sess, (409, Error username_taken))"
  using list_ex_lower[OF assms, of lower]
  by (auto simp: post_signup_file_def Let_def)

lemma signup_file_distinct:
  assumes "distinct (map (lower \<circ> username_u) users)"
  shows "distinct (map (lower \<circ> username_u)
           (fst (post_signup_file lower hash username password now sess users)))"
  using assms by (auto simp: post_signup_file_def Let_def list_ex_iff)

lemma signups_file_distinct:
  "distinct (map (lower \<circ> username_u) (signups_file lower hash reqs))"
proof -
  have "distinct (map (lower \<circ> username_u) users) \<Longrightarrow>
        distinct (map (lower \<circ> username_u)
          (foldl (\<lambda>users (username, password, now).
              fst (post_signup_file lower hash username password now None users)) users reqs))"
    for users
  proof (induction reqs arbitrary: users)
    case Nil
    then show ?case by simp
  next
    case (Cons r reqs)
    obtain a b c where r: "r = (a, b, c)" by (cases r)
    from Cons.IH[OF signup_file_distinct[OF Cons.prems, of hash a b c None]] show ?case
      by (simp add: r)
  qed
  from this[of "[]"] show ?thesis by (simp add: signups_file_def)
qed

lemma distinct_map_comp: "distinct (map (f \<circ> g) xs) \<Longrightarrow> distinct (map g xs)"
  by (metis distinct_map list.map_comp)

lemma find_Some_ex: "(\<exists>x\<in>set xs. P x) \<Longrightarrow> \<exists>y. find P xs = Some y"
  by (cases "find P xs") (auto simp: find_None_iff)

lemma signup_dual_files_taken:
  assumes "or_default username [] \<in> username_u ` set (USERS_FILE st)"
  shows "fst (post_signup_dual (store_files lower) hash username password now sess st) = st"
    and "3 \<le> length (or_default username []) \<Longrightarrow> 6 \<le> length (or_default password []) \<Longrightarrow>
         post_signup_dual (store_files lower) hash username password now sess st
           = (st, sess, (409, Error username_taken))"
proof -
  from assms have "\<exists>x\<in>set (USERS_FILE st). lower (username_u x) = lower (or_default username [])"
    by auto
  from find_Some_ex[OF this] obtain y where
    "getUser_files lower (or_default username []) st = Some y"
    by (auto simp: getUser_files_def)
  then show "fst (post_signup_dual (store_files lower) hash username password now sess st) = st"
    and "3 \<le> length (or_default username []) \<Longrightarrow> 6 \<le> length (or_default password []) \<Longrightarrow>
         post_signup_dual (store_files lower) hash username password now sess st
           = (st, sess, (409, Error username_taken))"
    by (auto simp: post_signup_dual_def store_files_def Let_def)
qed

lemma signup_dual_files_distinct:
  assumes "distinct (map (lower \<circ> username_u) (USERS_FILE st))"
  shows "distinct (map (lower \<circ> username_u)
           (USERS_FILE (fst (post_signup_dual (store_files lower) hash username password now sess st))))"
  using assms
  by (auto simp: post_signup_dual_def store_files_def createUser_files_def Let_def list_ex_iff
      split: option.splits)

lemma GetItem_None_iff: "GetItem key k tbl = None \<longleftrightarrow> k \<notin> key ` set tbl"
  by (auto simp: GetItem_def find_None_iff)

lemma signup_dual_ddb_taken:
  assumes "or_default username [] \<in> username_u ` set (USERS_TABLE st)"
  shows "fst (post_signup_dual store_ddb hash username password now sess st) = st"
    and "3 \<le> length (or_default username []) \<Longrightarrow> 6 \<le> length (or_default password []) \<Longrightarrow>
         post_signup_dual store_ddb hash username password now sess st
           = (st, sess, (409, Error username_taken))"
proof -
  from assms obtain y where "getUser_ddb (or_default username []) st = Some y"
    using GetItem_None_iff[of username_u "or_default username []" "USERS_TABLE st"]
    by (cases "getUser_ddb (or_default username []) st") (auto simp: getUser_ddb_def)
  then show "fst (post_signup_dual store_ddb hash username password now sess st) = st"
    and "3 \<le> length (or_default username []) \<Longrightarrow> 6 \<le> length (or_default password []) \<Longrightarrow>
         post_signup_dual store_ddb hash username password now sess st
           = (st, sess, (409, Error username_taken))"
    by (auto simp: post_signup_dual_def store_ddb_def Let_def)
qed

lemma signup_dual_ddb_distinct:
  assumes "distinct (map username_u (USERS_TABLE st))"
  shows "distinct (map username_u
           (USERS_TABLE (fst (post_signup_dual store_ddb hash username password now sess st))))"
  using assms
  by (auto simp: post_signup_dual_def store_ddb_def createUser_ddb_def getUser_ddb_def
      PutItem_not_exists_def PutItem_def GetItem_None_iff Let_def list_ex_iff
      split: option.splits)
    (metis image_eqI)

lemma signups_dual_inv:
  assumes step: "\<And>st username password now. P st \<Longrightarrow>
            P (fst (post_signup_dual store hash username password now None st))"
      and init: "P st0"
  shows "P (signups_dual store hash st0 reqs)"
proof -
  have "P st \<Longrightarrow> P (foldl (\<lambda>st (username, password, now).
              fst (post_signup_dual store hash username password now None st)) st reqs)" for st
  proof (induction reqs arbitrary: st)
    case Nil
    then show ?case by simp
  next
    case (Cons r reqs)
    obtain a b c where r: "r = (a, b, c)" by (cases r)
    from Cons.IH[OF step[OF Cons.prems, of a b c]] show ?case by (simp add: r)
  qed
  from this[OF init] show ?thesis by (simp add: signups_dual_def)
qed

text \<open>
  Claim C4, as the code refutes it: the field checks come before the lookup. With
  \<^verbatim>\<open>alice\<close> stored, a signup as \<^verbatim>\<open>alice\<close> with the password \<^verbatim>\<open>abc\<close> is answered
  400 \<^verbatim>\<open>password_too_short\<close>, not 409 \<^verbatim>\<open>username_taken\<close> (part_002 lines 67-74; part_001
  lines 318-323 has the same order).
\<close>

theorem signup_short_password_on_taken_name:
  "ascii ''alice'' \<in> username_u ` set one_user
   \<and> post_signup_file toLowerCase_ascii salted (Some (ascii ''alice'')) (Some (ascii ''abc'')) 2000
        None one_user = (one_user, None, (400, Error password_too_short))"
  by (simp add: one_user_eq post_signup_file_def or_default_def Let_def ascii_def)

text \<open>
  Claim C4, amended: a signup whose username is stored already stores no user, whatever
  its fields; when its fields pass the checks (username of 3 code units or more, password
  of 6 or more) it is answered 409 \<^verbatim>\<open>username_taken\<close> and the session stays as it was.
  This holds of part_002 and of part_001 over either store. Consequently after any
  sequence of signup requests, from no users, no two stored users share a username (in
  the file backends not even up to \<^verbatim>\<open>toLowerCase\<close>).
\<close>

theorem signup_taken_username:
  "(or_default username [] \<in> username_u ` set users \<longrightarrow>
      fst (post_signup_file lower hash username password now sess users) = users
      \<and> (3 \<le> length (or_default username []) \<and> 6 \<le> length (or_default password []) \<longrightarrow>
           post_signup_file lower hash username password now sess users
             = (users, sess, (409, Error username_taken))))
   \<and> (or_default username [] \<in> username_u ` set (USERS_FILE fs) \<longrightarrow>
      fst (post_signup_dual (store_files lower) hash username password now sess fs) = fs
      \<and> (3 \<le> length (or_default username []) \<and> 6 \<le> length (or_default password []) \<longrightarrow>
           post_signup_dual (store_files lower) hash username password now sess fs
             = (fs, sess, (409, Error username_taken))))
   \<and> (or_default username [] \<in> username_u ` set (USERS_TABLE st) \<longrightarrow>
      fst (post_signup_dual store_ddb hash username password now sess st) = st
      \<and> (3 \<le> length (or_default username []) \<and> 6 \<le> length (or_default password []) \<longrightarrow>
           post_signup_dual store_ddb hash username password now sess st
             = (st, sess, (409, Error username_taken))))
   \<and> distinct (map (lower \<circ> username_u) (signups_file lower hash reqs))
   \<and> distinct (map username_u (signups_file lower hash reqs))
   \<and> distinct (map (lower \<circ> username_u)
         (USERS_FILE (signups_dual (store_files lower) hash seed_files reqs)))
   \<and> distinct (map username_u (USERS_FILE (signups_dual (store_files lower) hash seed_files reqs)))
   \<and> distinct (map username_u (USERS_TABLE (signups_dual store_ddb hash empty_ddb reqs)))"
proof -
  have f: "distinct (map (lower \<circ> username_u)
             (USERS_FILE (signups_dual (store_files lower) hash seed_files reqs)))"
    by (rule signups_dual_inv[where P = "\<lambda>s. distinct (map (lower \<circ> username_u) (USERS_FILE s))"])
       (simp_all add: signup_dual_files_distinct seed_files_def)
  have d: "distinct (map username_u (USERS_TABLE (signups_dual store_ddb hash empty_ddb reqs)))"
    by (rule signups_dual_inv[where P = "\<lambda>s. distinct (map username_u (USERS_TABLE s))"])
       (simp_all add: signup_dual_ddb_distinct empty_ddb_def)
  have p1: "or_default username [] \<in> username_u ` set users \<longrightarrow>
      fst (post_signup_file lower hash username password now sess users) = users
      \<and> (3 \<le> length (or_default username []) \<and> 6 \<le> length (or_default password []) \<longrightarrow>
           post_signup_file lower hash username password now sess users
             = (users, sess, (409, Error username_taken)))"
    by (simp add: signup_file_taken)
  have p2: "or_default username [] \<in> username_u ` set (USERS_FILE fs) \<longrightarrow>
      fst (post_signup_dual (store_files lower) hash username password now sess fs) = fs
      \<and> (3 \<le> length (or_default username []) \<and> 6 \<le> length (or_default password []) \<longrightarrow>
           post_signup_dual (store_files lower) hash username password now sess fs
             = (fs, sess, (409, Error username_taken)))"
    by (simp add: signup_dual_files_taken)
  have p3: "or_default username [] \<in> username_u ` set (USERS_TABLE st) \<longrightarrow>
      fst (post_signup_dual store_ddb hash username password now sess st) = st
      \<and> (3 \<le> length (or_default username []) \<and> 6 \<le> length (or_default password []) \<longrightarrow>
           post_signup_dual store_ddb hash username password now sess st
             = (st, sess, (409, Error username_taken)))"
    by (simp add: signup_dual_ddb_taken)
  note g = signups_file_distinct[of lower hash reqs]
  show ?thesis
    using p1 p2 p3 g f d distinct_map_comp[OF g] distinct_map_comp[OF f]
    by (intro conjI)
qed

theorem signup_taken_username_witness:
  "ascii ''alice'' \<in> username_u ` set one_user
   \<and> 3 \<le> length (ascii ''alice'') \<and> 6 \<le> length (ascii ''other12'')
   \<and> post_signup_file toLowerCase_ascii salted (Some (ascii ''alice'')) (Some (ascii ''other12''))
        2000 None one_user = (one_user, None, (409, Error username_taken))
   \<and> post_signup_dual (store_files toLowerCase_ascii) salted (Some (ascii ''alice''))
        (Some (ascii ''other12'')) 2000 None files_one_user
        = (files_one_user, None, (409, Error username_taken))
   \<and> post_signup_dual store_ddb salted (Some (ascii ''alice'')) (Some (ascii ''other12''))
        2000 None ddb_one_user = (ddb_one_user, None, (409, Error username_taken))
   \<and> distinct (map username_u (signups_file toLowerCase_ascii salted two_signups))"
proof -
  have m: "ascii ''alice'' \<in> username_u ` set one_user"
    by (simp add: one_user_eq)
  have l: "3 \<le> length (ascii ''alice'')" "6 \<le> length (ascii ''other12'')"
    by (simp_all add: ascii_def)
  note t = signup_taken_username[where username = "Some (ascii ''alice'')"
      and password = "Some (ascii ''other12'')" and users = one_user and fs = files_one_user
      and st = ddb_one_user and lower = toLowerCase_ascii and hash = salted and now = 2000
      and sess = None and reqs = two_signups]
  from t m l show ?thesis
    by (simp add: or_default_def files_one_user_def ddb_one_user_def)
qed

section \<open>Changing a password\<close>

lemma GetItem_set_hash:
  "GetItem username_u k
     (map (\<lambda>x. if username_u x = username then x\<lparr>passwordHash_u := h\<rparr> else x) tbl)
   = map_option (\<lambda>x. if username_u x = username then x\<lparr>passwordHash_u := h\<rparr> else x)
       (GetItem username_u k tbl)"
  by (induction tbl) (auto simp: GetItem_def)

text \<open>
  Claim C5 (part_000 lines 88-101 and 235-241). \<^verbatim>\<open>store.changePassword\<close> returns false and
  leaves both tables as they are when the table has no item of the username or
  \<^verbatim>\<open>bcrypt.compare\<close> rejects the old password, and the route then answers 401. When the
  comparison succeeds it returns true, the item of the username holds the hash of the new
  password and keeps its other attributes, and every other item and the videos table
  are unchanged. So the tables change only after a successful comparison.
\<close>

theorem changePassword_only_on_match:
  "(GetItem username_u username (USERS_TABLE st) = None \<longrightarrow>
      changePassword cmp hash username old new st = (st, False))
   \<and> (\<forall>u. GetItem username_u username (USERS_TABLE st) = Some u \<and> \<not> cmp old (passwordHash_u u) \<longrightarrow>
      changePassword cmp hash username old new st = (st, False))
   \<and> (\<forall>u. GetItem username_u username (USERS_TABLE st) = Some u \<and> cmp old (passwordHash_u u) \<longrightarrow>
      (\<exists>st'. changePassword cmp hash username old new st = (st', True)
         \<and> GetItem username_u username (USERS_TABLE st') = Some (u\<lparr>passwordHash_u := hash new\<rparr>)
         \<and> (\<forall>k. k \<noteq> username \<longrightarrow>
               GetItem username_u k (USERS_TABLE st') = GetItem username_u k (USERS_TABLE st))
         \<and> map username_u (USERS_TABLE st') = map username_u (USERS_TABLE st)
         \<and> VIDEOS_TABLE st' = VIDEOS_TABLE st))
   \<and> (\<not> snd (changePassword cmp hash username old new st) \<longrightarrow>
      fst (changePassword cmp hash username old new st) = st)
   \<and> (fst (changePassword cmp hash username old new st) \<noteq> st \<longrightarrow>
      (\<exists>u. GetItem username_u username (USERS_TABLE st) = Some u \<and> cmp old (passwordHash_u u)))
   \<and> (6 \<le> length (or_default body_new []) \<and> username_s s = username \<and>
       (\<forall>u. GetItem username_u username (USERS_TABLE st) = Some u \<longrightarrow>
            \<not> cmp (or_default body_old []) (passwordHash_u u)) \<longrightarrow>
      post_password_ddb cmp hash (Some s) body_old body_new st
        = (st, (401, Error invalid_old_password)))"
proof (intro conjI allI impI)
  show "changePassword cmp hash username old new st = (st, False)"
    if "GetItem username_u username (USERS_TABLE st) = None"
    using that by (simp add: changePassword_def)
  show "changePassword cmp hash username old new st = (st, False)"
    if "GetItem username_u username (USERS_TABLE st) = Some u \<and> \<not> cmp old (passwordHash_u u)" for u
    using that by (simp add: changePassword_def)
  show "\<exists>st'. changePassword cmp hash username old new st = (st', True)
         \<and> GetItem username_u username (USERS_TABLE st') = Some (u\<lparr>passwordHash_u := hash new\<rparr>)
         \<and> (\<forall>k. k \<noteq> username \<longrightarrow>
               GetItem username_u k (USERS_TABLE st') = GetItem username_u k (USERS_TABLE st))
         \<and> map username_u (USERS_TABLE st') = map username_u (USERS_TABLE st)
         \<and> VIDEOS_TABLE st' = VIDEOS_TABLE st"
    if h: "GetItem username_u username (USERS_TABLE st) = Some u \<and> cmp old (passwordHash_u u)" for u
  proof -
    have k: "username_u u = username" using h GetItem_key by fastforce
    have o: "GetItem username_u k
               (map (\<lambda>x. if username_u x = username then x\<lparr>passwordHash_u := hash new\<rparr> else x)
                 (USERS_TABLE st)) = GetItem username_u k (USERS_TABLE st)"
      if "k \<noteq> username" for k
    proof (cases "GetItem username_u k (USERS_TABLE st)")
      case None
      then show ?thesis by (simp add: GetItem_set_hash)
    next
      case (Some x)
      then have "username_u x = k" by (rule GetItem_key)
      with Some that show ?thesis by (simp add: GetItem_set_hash)
    qed
    have m: "map username_u
               (map (\<lambda>x. if username_u x = username then x\<lparr>passwordHash_u := hash new\<rparr> else x)
                 (USERS_TABLE st)) = map username_u (USERS_TABLE st)"
      by (induction "USERS_TABLE st") auto
    show ?thesis
      using h k o m by (simp add: changePassword_def Let_def GetItem_set_hash)
  qed
  show "fst (changePassword cmp hash username old new st) = st"
    if "\<not> snd (changePassword cmp hash username old new st)"
    using that by (auto simp: changePassword_def Let_def split: option.splits if_splits)
  show "\<exists>u. GetItem username_u username (USERS_TABLE st) = Some u \<and> cmp old (passwordHash_u u)"
    if "fst (changePassword cmp hash username old new st) \<noteq> st"
    using that by (auto simp: changePassword_def Let_def split: option.splits if_splits)
  show "post_password_ddb cmp hash (Some s) body_old body_new st
        = (st, (401, Error invalid_old_password))"
    if "6 \<le> length (or_default body_new []) \<and> username_s s = username \<and>
       (\<forall>u. GetItem username_u username (USERS_TABLE st) = Some u \<longrightarrow>
            \<not> cmp (or_default body_old []) (passwordHash_u u))"
    using that
    by (auto simp: post_password_ddb_def requireAuth_def password_handler_ddb_def
        changePassword_def Let_def split: option.splits)
qed

theorem changePassword_only_on_match_witness:
  "GetItem username_u (ascii ''bob'') (USERS_TABLE ddb_one_user) = None
   \<and> changePassword salted_compare salted (ascii ''bob'') (ascii ''secret1'') (ascii ''newpass1'')
        ddb_one_user = (ddb_one_user, False)
   \<and> GetItem username_u (ascii ''alice'') (USERS_TABLE ddb_one_user) = Some (hd one_user)
   \<and> \<not> salted_compare (ascii ''wrong11'') (passwordHash_u (hd one_user))
   \<and> changePassword salted_compare salted (ascii ''alice'') (ascii ''wrong11'') (ascii ''newpass1'')
        ddb_one_user = (ddb_one_user, False)
   \<and> post_password_ddb salted_compare salted (Some alice) (Some (ascii ''wrong11''))
        (Some (ascii ''newpass1'')) ddb_one_user = (ddb_one_user, (401, Error invalid_old_password))
   \<and> salted_compare (ascii ''secret1'') (passwordHash_u (hd one_user))
   \<and> (\<exists>st'. changePassword salted_compare salted (ascii ''alice'') (ascii ''secret1'')
                (ascii ''newpass1'') ddb_one_user = (st', True)
          \<and> GetItem username_u (ascii ''alice'') (USERS_TABLE st')
              = Some ((hd one_user)\<lparr>passwordHash_u := salted (ascii ''newpass1'')\<rparr>))"
proof -
  have g0: "GetItem username_u (ascii ''bob'') (USERS_TABLE ddb_one_user) = None"
    by (simp add: ddb_one_user_def one_user_eq GetItem_def ascii_def)
  have g1: "GetItem username_u (ascii ''alice'') (USERS_TABLE ddb_one_user) = Some (hd one_user)"
    by (simp add: ddb_one_user_def one_user_eq GetItem_def)
  have c1: "\<not> salted_compare (ascii ''wrong11'') (passwordHash_u (hd one_user))"
    by (simp add: one_user_eq salted_compare_def salted_def ascii_def)
  have c2: "salted_compare (ascii ''secret1'') (passwordHash_u (hd one_user))"
    by (simp add: one_user_eq salted_compare_def)
  have l: "6 \<le> length (or_default (Some (ascii ''newpass1'')) [])"
    by (simp add: or_default_def ascii_def)
  have u: "username_s alice = ascii ''alice''"
    by (simp add: alice_def)
  note t0 = changePassword_only_on_match[where username = "ascii ''bob''" and st = ddb_one_user
      and cmp = salted_compare and hash = salted and old = "ascii ''secret1''"
      and new = "ascii ''newpass1''"]
  note t1 = changePassword_only_on_match[where username = "ascii ''alice''" and st = ddb_one_user
      and cmp = salted_compare and hash = salted and old = "ascii ''wrong11''"
      and new = "ascii ''newpass1''" and s = alice and body_old = "Some (ascii ''wrong11'')"
      and body_new = "Some (ascii ''newpass1'')"]
  note t2 = changePassword_only_on_match[where username = "ascii ''alice''" and st = ddb_one_user
      and cmp = salted_compare and hash = salted and old = "ascii ''secret1''"
      and new = "ascii ''newpass1''"]
  from t0 g0 have r0: "changePassword salted_compare salted (ascii ''bob'') (ascii ''secret1'')
        (ascii ''newpass1'') ddb_one_user = (ddb_one_user, False)"
    by blast
  from t1 g1 c1 have r1: "changePassword salted_compare salted (ascii ''alice'') (ascii ''wrong11'')
        (ascii ''newpass1'') ddb_one_user = (ddb_one_user, False)"
    by blast
  have c1': "\<forall>u. GetItem username_u (ascii ''alice'') (USERS_TABLE ddb_one_user) = Some u \<longrightarrow>
            \<not> salted_compare (or_default (Some (ascii ''wrong11'')) []) (passwordHash_u u)"
    using g1 c1 by (simp add: or_default_def)
  from t1 l u c1' have r3: "post_password_ddb salted_compare salted (Some alice)
        (Some (ascii ''wrong11'')) (Some (ascii ''newpass1'')) ddb_one_user
        = (ddb_one_user, (401, Error invalid_old_password))"
    by blast
  from t2 g1 c2 have r2: "\<exists>st'. changePassword salted_compare salted (ascii ''alice'')
                (ascii ''secret1'') (ascii ''newpass1'') ddb_one_user = (st', True)
          \<and> GetItem username_u (ascii ''alice'') (USERS_TABLE st')
              = Some ((hd one_user)\<lparr>passwordHash_u := salted (ascii ''newpass1'')\<rparr>)"
    by blast
  from g0 r0 g1 c1 r1 r3 c2 r2 show ?thesis by blast
qed

section \<open>Session gate, comment bounds and the feed\<close>

text \<open>
  Claim C6, as the minimal backend refutes it: tiktokbackend.js has no sessions and no
  \<^verbatim>\<open>requireAuth\<close>; its like route takes no caller at all. A request of whoever, on the
  seeded document, is answered 200 and raises the likeCount of video 1 from 0 to 1.
\<close>

theorem like_min_needs_no_session:
  "likeCount_v (hd seed_min) = Some 0
   \<and> snd (post_like_min 1 seed_min) = (200, Liked 1 (Some 1))
   \<and> likeCount_v (hd (fst (post_like_min 1 seed_min))) = Some 1"
  by (simp add: post_like_min_def seed_min_def or_default_def)

text \<open>
  Claim C6, amended to the backends that have sessions (part_002, part_001 over either
  store, part_000): a like request without a session user is answered 401
  \<^verbatim>\<open>unauthorized\<close> by \<^verbatim>\<open>requireAuth\<close> and the stored state is the one before the request, so
  no likeCount changes.
\<close>

theorem like_without_session_rejected:
  "post_like_file None idn db = (db, (401, Error unauthorized))
   \<and> post_like_dual store None idn st = (st, (401, Error unauthorized))
   \<and> post_like_ddb None idn tables = (tables, (401, Error unauthorized))"
  by (simp add: post_like_file_def post_like_dual_def post_like_ddb_def requireAuth_def)

lemma js_trim_spaces: "js_trim (replicate n 0x20) = []"
  by (simp add: js_trim_def is_ws_def dropWhile_replicate)

lemma js_trim_letters: "js_trim (replicate n 0x61) = replicate n 0x61"
  by (simp add: js_trim_def is_ws_def dropWhile_replicate)

text \<open>
  Claim C7, as part_002 refutes it: the session gate comes before the checks of the text
  (line 139). A comment post without a session whose text is empty is answered 401
  \<^verbatim>\<open>unauthorized\<close>, not 400 \<^verbatim>\<open>empty_comment\<close>; the document is unchanged.
\<close>

theorem comment_without_session_unauthorized:
  "length (js_trim (or_default None [])) = 0
   \<and> post_comment_file None 1 None 1000 noon seed_file = (seed_file, (401, Error unauthorized))"
  by (simp add: or_default_def js_trim_def post_comment_file_def requireAuth_def)

text \<open>
  Claim C7, amended (tiktokbackend.js lines 117-121, part_002 lines 139-143). Let \<open>text\<close>
  be the trimmed body text. A comment post of tiktokbackend.js, and a comment post of a
  signed-in user \<open>u\<close> in part_002, is answered 400 \<^verbatim>\<open>empty_comment\<close> if \<open>text\<close> is empty
  and 400 \<^verbatim>\<open>too_long\<close> if \<open>text\<close> is longer than 300 code units. A comment post without
  a session is answered 401 in part_002. In all these cases the document is the one
  before the request: no comment was appended.
\<close>

theorem comment_text_out_of_bounds_rejected:
  "(length (js_trim (or_default body_text [])) = 0 \<longrightarrow>
      post_comment_min idn body_text now stamp db = (db, (400, Error empty_comment))
      \<and> post_comment_file (Some u) idn body_text now stamp db = (db, (400, Error empty_comment)))
   \<and> (300 < length (js_trim (or_default body_text [])) \<longrightarrow>
      post_comment_min idn body_text now stamp db = (db, (400, Error too_long))
      \<and> post_comment_file (Some u) idn body_text now stamp db = (db, (400, Error too_long)))
   \<and> post_comment_file None idn body_text now stamp db = (db, (401, Error unauthorized))
   \<and> (length (js_trim (or_default body_text [])) = 0 \<or> 300 < length (js_trim (or_default body_text []))
        \<longrightarrow> fst (post_comment_file sess idn body_text now stamp db) = db)"
  by (cases sess)
     (auto simp: post_comment_min_def post_comment_file_def comment_handler_file_def
        requireAuth_def Let_def)

theorem comment_text_out_of_bounds_rejected_witness:
  "length (js_trim (or_default (Some (replicate 3 0x20)) [])) = 0
   \<and> post_comment_min 1 (Some (replicate 3 0x20)) 1000 [] seed_min
       = (seed_min, (400, Error empty_comment))
   \<and> post_comment_file (Some alice) 1 None 1000 [] seed_file
       = (seed_file, (400, Error empty_comment))
   \<and> 300 < length (js_trim (or_default (Some (replicate 301 0x61)) []))
   \<and> post_comment_min 1 (Some (replicate 301 0x61)) 1000 [] seed_min
       = (seed_min, (400, Error too_long))
   \<and> post_comment_file (Some alice) 1 (Some (replicate 301 0x61)) 1000 [] seed_file
       = (seed_file, (400, Error too_long))
   \<and> post_comment_file None 1 (Some (replicate 301 0x61)) 1000 [] seed_file
       = (seed_file, (401, Error unauthorized))
   \<and> fst (post_comment_file None 1 (Some (replicate 301 0x61)) 1000 [] seed_file) = seed_file"
proof -
  have e: "length (js_trim (or_default (Some (replicate 3 0x20)) [])) = 0"
    by (simp add: or_default_def js_trim_spaces)
  have e': "length (js_trim (or_default None [])) = 0"
    by (simp add: or_default_def js_trim_def)
  have l: "300 < length (js_trim (or_default (Some (replicate 301 0x61)) []))"
    by (simp add: or_default_def js_trim_letters)
  note t1 = comment_text_out_of_bounds_rejected[where body_text = "Some (replicate 3 0x20)"
      and idn = 1 and now = 1000 and stamp = "[]" and db = seed_min]
  note t2 = comment_text_out_of_bounds_rejected[where body_text = None
      and idn = 1 and now = 1000 and stamp = "[]" and db = seed_file and u = alice]
  note t3 = comment_text_out_of_bounds_rejected[where body_text = "Some (replicate 301 0x61)"
      and idn = 1 and now = 1000 and stamp = "[]" and db = seed_min]
  note t4 = comment_text_out_of_bounds_rejected[where body_text = "Some (replicate 301 0x61)"
      and idn = 1 and now = 1000 and stamp = "[]" and db = seed_file and u = alice and sess = None]
  from t1 e t2 e' t3 l t4 show ?thesis by blast
qed

text \<open>
  Claim C8 (part_002 lines 105-112; part_001 lines 75-88 and 251-262). The feed is the
  list of the projections of the stored videos, one for each, in order. A projection has
  no property \<^verbatim>\<open>likesByUser\<close> and no property \<^verbatim>\<open>likes\<close>, and its \<^verbatim>\<open>commentCount\<close> is the
  length of the video's \<^verbatim>\<open>comments\<close> (0 when the video has none).
\<close>

theorem feed_hides_witness_and_counts_comments:
  "get_feed_file db = (db, (200, Feed (map feed_entry_file db)))
   \<and> ''likesByUser'' \<notin> fst ` set (feed_entry_file v)
   \<and> ''likes'' \<notin> fst ` set (feed_entry_file v)
   \<and> map_of (feed_entry_file v) ''commentCount''
        = Some (Num (int (length (or_default (comments_v v) []))))
   \<and> listVideos store_ddb st = map public_ddb (VIDEOS_TABLE st)
   \<and> ''likesByUser'' \<notin> fst ` set (public_ddb w)
   \<and> ''likes'' \<notin> fst ` set (public_ddb w)
   \<and> map_of (public_ddb w) ''commentCount''
        = Some (Num (int (length (or_default (comments_d w) []))))
   \<and> listVideos (store_files lower) fs = map public_files (DB_FILE fs)
   \<and> ''likesByUser'' \<notin> fst ` set (public_files v)
   \<and> ''likes'' \<notin> fst ` set (public_files v)
   \<and> map_of (public_files v) ''commentCount''
        = Some (Num (int (length (or_default (comments_v v) []))))"
  by (simp add: get_feed_file_def feed_entry_file_def props_video_def store_ddb_def
      listVideos_ddb_def public_ddb_def store_files_def listVideos_files_def public_files_def
      split: option.split)

section \<open>The text of an accepted comment\<close>

lemma js_trim_decomp:
  "\<exists>pre suf. s = pre @ js_trim s @ suf \<and> (\<forall>x\<in>set pre. is_ws x) \<and> (\<forall>x\<in>set suf. is_ws x)"
proof -
  let ?rest = "dropWhile is_ws s"
  let ?pre = "takeWhile is_ws s"
  let ?suf = "rev (takeWhile is_ws (rev ?rest))"
  have r: "?rest = js_trim s @ ?suf"
    by (metis js_trim_def rev_append rev_rev_ident takeWhile_dropWhile_id)
  have "s = ?pre @ ?rest" by simp
  with r have "s = ?pre @ js_trim s @ ?suf" by simp
  moreover have "\<forall>x\<in>set ?pre. is_ws x" by (auto dest: set_takeWhileD)
  moreover have "\<forall>x\<in>set ?suf. is_ws x" by (auto dest: set_takeWhileD)
  ultimately show ?thesis by blast
qed

lemma js_trim_ends:
  assumes "js_trim s \<noteq> []"
  shows "\<not> is_ws (hd (js_trim s))" and "\<not> is_ws (last (js_trim s))"
proof -
  let ?rest = "dropWhile is_ws s"
  let ?d = "dropWhile is_ws (rev ?rest)"
  from assms have d: "?d \<noteq> []" by (simp add: js_trim_def)
  then have rest: "?rest \<noteq> []" by (metis dropWhile.simps(1) rev.simps(1))
  have "last (js_trim s) = hd ?d" using d by (simp add: js_trim_def last_rev)
  moreover have "\<not> is_ws (hd ?d)" using d by (rule hd_dropWhile)
  ultimately show "\<not> is_ws (last (js_trim s))" by simp
  have "rev ?rest = takeWhile is_ws (rev ?rest) @ ?d" by simp
  then have "last (rev ?rest) = last ?d" using d by (metis last_appendR)
  then have "hd (js_trim s) = hd ?rest"
    using d rest by (simp add: js_trim_def hd_rev last_rev)
  moreover have "\<not> is_ws (hd ?rest)" using rest by (rule hd_dropWhile)
  ultimately show "\<not> is_ws (hd (js_trim s))" by simp
qed

lemma comment_handler_file_created:
  assumes "comment_handler_file u idn body_text now stamp db = (db', (201, Created c))"
  shows "c = \<lparr>id_c = now, user_c = Some (username_s u), text_c = js_trim (or_default body_text []),
               at_c = stamp\<rparr>
       \<and> (\<exists>vid. find (\<lambda>v. id_v v = idn) db = Some vid
            \<and> find (\<lambda>v. id_v v = idn) db'
                = Some (vid\<lparr>comments_v := Some (or_default (comments_v vid) [] @ [c])\<rparr>))"
proof (cases "find (\<lambda>v. id_v v = idn) db")
  case None
  with assms show ?thesis
    by (auto simp: comment_handler_file_def Let_def split: if_splits)
next
  case (Some vid)
  let ?c = "\<lparr>id_c = now, user_c = Some (username_s u), text_c = js_trim (or_default body_text []),
               at_c = stamp\<rparr>"
  let ?v = "vid\<lparr>comments_v := Some (or_default (comments_v vid) [] @ [?c])\<rparr>"
  from assms Some have c: "c = ?c" and db': "db' = replace_first (\<lambda>v. id_v v = idn) ?v db"
    by (auto simp: comment_handler_file_def Let_def split: if_splits)
  have "id_v ?v = idn" using find_id_v[OF Some] by simp
  then have "find (\<lambda>v. id_v v = idn) db' = Some ?v"
    unfolding db' using find_replace_first[OF Some, of ?v] by simp
  with Some c show ?thesis by simp
qed

lemma comment_handler_ddb_created:
  assumes "comment_handler_ddb u idn body_text now stamp st = (st', (201, Created c))"
  shows "c = \<lparr>id_c = now, user_c = Some (username_s u), text_c = js_trim (or_default body_text []),
               at_c = stamp\<rparr>
       \<and> GetItem id_d idn (VIDEOS_TABLE st')
           = Some ((or_default (GetItem id_d idn (VIDEOS_TABLE st)) (bare_video idn))
               \<lparr>comments_d := Some (or_default (comments_d
                    (or_default (GetItem id_d idn (VIDEOS_TABLE st)) (bare_video idn))) [] @ [c]),
                commentCount_d := Some (or_default (commentCount_d
                    (or_default (GetItem id_d idn (VIDEOS_TABLE st)) (bare_video idn))) 0 + 1)\<rparr>)"
proof -
  let ?old = "or_default (GetItem id_d idn (VIDEOS_TABLE st)) (bare_video idn)"
  let ?c = "\<lparr>id_c = now, user_c = Some (username_s u), text_c = js_trim (or_default body_text []),
               at_c = stamp\<rparr>"
  let ?new = "?old\<lparr>comments_d := Some (or_default (comments_d ?old) [] @ [?c]),
                    commentCount_d := Some (or_default (commentCount_d ?old) 0 + 1)\<rparr>"
  have k: "id_d ?old = idn"
    by (cases "GetItem id_d idn (VIDEOS_TABLE st)")
       (auto simp: or_default_def bare_video_def dest: GetItem_key)
  then have g: "GetItem id_d idn (PutItem id_d ?new (VIDEOS_TABLE st)) = Some ?new"
    using GetItem_PutItem[of id_d ?new "VIDEOS_TABLE st"] by simp
  from assms have c: "c = ?c" and st': "VIDEOS_TABLE st' = PutItem id_d ?new (VIDEOS_TABLE st)"
    by (auto simp: comment_handler_ddb_def addComment_ddb_def UpdateItem_def Let_def
        split: if_splits)
  show ?thesis unfolding st' c using g by simp
qed

text \<open>
  Claim C9 (part_002 lines 139-158, part_000 lines 209-215 with \<^verbatim>\<open>store.addComment\<close>). When
  a comment post is accepted (answered 201 with the comment \<open>c\<close>), the text of \<open>c\<close> is
  the trimmed body text, and \<open>c\<close> is the comment appended to the stored video: the
  comments of the video after the request are the comments before it followed by \<open>c\<close>.
  The trimmed text is the body text without a prefix and a suffix of white space, and it
  neither starts nor ends with white space.
\<close>

theorem accepted_comment_stores_trimmed_text:
  "(post_comment_file sess idn body_text now stamp db = (db', (201, Created c)) \<longrightarrow>
      text_c c = js_trim (or_default body_text [])
      \<and> (\<exists>vid. find (\<lambda>v. id_v v = idn) db = Some vid
            \<and> find (\<lambda>v. id_v v = idn) db'
                = Some (vid\<lparr>comments_v := Some (or_default (comments_v vid) [] @ [c])\<rparr>)))
   \<and> (post_comment_ddb sess idn body_text now stamp st = (st', (201, Created c')) \<longrightarrow>
      text_c c' = js_trim (or_default body_text [])
      \<and> (\<exists>v'. GetItem id_d idn (VIDEOS_TABLE st') = Some v'
            \<and> comments_d v'
                = Some (or_default (comments_d
                     (or_default (GetItem id_d idn (VIDEOS_TABLE st)) (bare_video idn))) [] @ [c'])))
   \<and> (\<exists>pre suf. or_default body_text [] = pre @ js_trim (or_default body_text []) @ suf
          \<and> (\<forall>x\<in>set pre. is_ws x) \<and> (\<forall>x\<in>set suf. is_ws x))
   \<and> (js_trim (or_default body_text []) \<noteq> [] \<longrightarrow>
        \<not> is_ws (hd (js_trim (or_default body_text [])))
        \<and> \<not> is_ws (last (js_trim (or_default body_text []))))"
proof (intro conjI impI)
  assume a: "post_comment_file sess idn body_text now stamp db = (db', (201, Created c))"
  then obtain u where u: "sess = Some u"
    by (cases sess) (auto simp: post_comment_file_def requireAuth_def)
  with a have h: "comment_handler_file u idn body_text now stamp db = (db', (201, Created c))"
    by (simp add: post_comment_file_def requireAuth_def)
  from comment_handler_file_created[OF h]
  show "text_c c = js_trim (or_default body_text [])"
    and "\<exists>vid. find (\<lambda>v. id_v v = idn) db = Some vid
            \<and> find (\<lambda>v. id_v v = idn) db'
                = Some (vid\<lparr>comments_v := Some (or_default (comments_v vid) [] @ [c])\<rparr>)"
    by auto
next
  assume a: "post_comment_ddb sess idn body_text now stamp st = (st', (201, Created c'))"
  then obtain u where u: "sess = Some u"
    by (cases sess) (auto simp: post_comment_ddb_def requireAuth_def)
  with a have h: "comment_handler_ddb u idn body_text now stamp st = (st', (201, Created c'))"
    by (simp add: post_comment_ddb_def requireAuth_def)
  from comment_handler_ddb_created[OF h]
  show "text_c c' = js_trim (or_default body_text [])"
    and "\<exists>v'. GetItem id_d idn (VIDEOS_TABLE st') = Some v'
            \<and> comments_d v'
                = Some (or_default (comments_d
                     (or_default (GetItem id_d idn (VIDEOS_TABLE st)) (bare_video idn))) [] @ [c'])"
    by auto
next
  show "\<exists>pre suf. or_default body_text [] = pre @ js_trim (or_default body_text []) @ suf
          \<and> (\<forall>x\<in>set pre. is_ws x) \<and> (\<forall>x\<in>set suf. is_ws x)"
    by (rule js_trim_decomp)
next
  assume "js_trim (or_default body_text []) \<noteq> []"
  then show "\<not> is_ws (hd (js_trim (or_default body_text [])))"
    and "\<not> is_ws (last (js_trim (or_default body_text [])))"
    by (rule js_trim_ends)+
qed

lemma js_trim_padded_hi: "js_trim padded_hi = hi"
  by (simp add: js_trim_def padded_hi_def is_ws_def hi_def ascii_def)

theorem accepted_comment_stores_trimmed_text_witness:
  "post_comment_file (Some alice) 1 (Some padded_hi) 1000 noon seed_file
     = (commented_file, (201, Created hi_comment))
   \<and> post_comment_ddb (Some alice) 1 (Some padded_hi) 1000 noon seeded_ddb
     = (commented_seeded_ddb, (201, Created hi_comment))
   \<and> text_c hi_comment = js_trim padded_hi
   \<and> js_trim padded_hi = hi
   \<and> (\<exists>vid. find (\<lambda>v. id_v v = 1) seed_file = Some vid
         \<and> find (\<lambda>v. id_v v = 1) commented_file
             = Some (vid\<lparr>comments_v := Some (or_default (comments_v vid) [] @ [hi_comment])\<rparr>))
   \<and> (\<exists>v'. GetItem id_d 1 (VIDEOS_TABLE commented_seeded_ddb) = Some v'
         \<and> comments_d v' = Some (or_default (comments_d
                (or_default (GetItem id_d 1 (VIDEOS_TABLE seeded_ddb)) (bare_video 1))) [] @ [hi_comment]))
   \<and> \<not> is_ws (hd (js_trim padded_hi)) \<and> \<not> is_ws (last (js_trim padded_hi))"
proof -
  have n: "hi \<noteq> []" "\<not> 300 < length hi" "\<not> length hi < 1"
    by (simp_all add: hi_def ascii_def)
  have e1: "post_comment_file (Some alice) 1 (Some padded_hi) 1000 noon seed_file
              = (commented_file, (201, Created hi_comment))"
    using n
    by (simp add: commented_file_def post_comment_file_def requireAuth_def comment_handler_file_def
        or_default_def js_trim_padded_hi Let_def seed_file_def hi_comment_def alice_def)
  have e2: "post_comment_ddb (Some alice) 1 (Some padded_hi) 1000 noon seeded_ddb
              = (commented_seeded_ddb, (201, Created hi_comment))"
    using n
    by (simp add: commented_seeded_ddb_def post_comment_ddb_def requireAuth_def
        comment_handler_ddb_def addComment_ddb_def UpdateItem_def
        or_default_def js_trim_padded_hi Let_def hi_comment_def alice_def)
  have t: "js_trim (or_default (Some padded_hi) []) = js_trim padded_hi"
    by (simp add: or_default_def)
  have ne: "js_trim padded_hi \<noteq> []"
    using n by (simp add: js_trim_padded_hi)
  note th = accepted_comment_stores_trimmed_text[where sess = "Some alice" and idn = 1
      and body_text = "Some padded_hi" and now = 1000 and stamp = noon and db = seed_file
      and db' = commented_file and c = hi_comment and st = seeded_ddb
      and st' = commented_seeded_ddb and c' = hi_comment, unfolded t]
  from th e1 e2 ne js_trim_padded_hi show ?thesis
    by blast
qed

section \<open>Likes counted by their witnesses\<close>

lemma count_ok_seed: "\<forall>v\<in>set seed_file. count_ok v"
  by (simp add: seed_file_def count_ok_def)

lemma find_mem: "find P xs = Some x \<Longrightarrow> x \<in> set xs"
  by (induction xs) (auto split: if_splits)

lemma count_ok_liked:
  assumes "count_ok vid"
  shows "count_ok
    (let vid1 = vid\<lparr>likesByUser_v := Some (or_default (likesByUser_v vid) [])\<rparr>
     in if uid \<notin> set (or_default (likesByUser_v vid1) [])
        then vid1\<lparr>likesByUser_v := Some (or_default (likesByUser_v vid1) [] @ [uid]),
                  likeCount_v := Some (or_default (likeCount_v vid1) 0 + 1)\<rparr>
        else vid1)"
  using assms by (auto simp: count_ok_def or_default_def Let_def split: option.splits)

lemma like_handler_file_ok:
  assumes "\<forall>v\<in>set db. count_ok v"
  shows "\<forall>v\<in>set (fst (like_handler_file u idn db)). count_ok v"
proof (cases "find (\<lambda>v. id_v v = idn) db")
  case None
  with assms show ?thesis by (simp add: like_handler_file_def)
next
  case (Some vid)
  then have "count_ok vid" using assms find_mem by fastforce
  then have ok: "count_ok (liked_by (id_s u) vid)"
    unfolding liked_by_def by (rule count_ok_liked)
  have "fst (like_handler_file u idn db) = replace_first (\<lambda>v. id_v v = idn) (liked_by (id_s u) vid) db"
    using Some by (simp add: like_handler_file_def liked_by_def Let_def)
  then show ?thesis
    using set_replace_first[of "\<lambda>v. id_v v = idn" "liked_by (id_s u) vid" db] ok assms by auto
qed

lemma post_like_file_ok:
  assumes "\<forall>v\<in>set db. count_ok v"
  shows "\<forall>v\<in>set (fst (post_like_file sess idn db)). count_ok v"
  using assms like_handler_file_ok[OF assms]
  by (cases sess) (simp_all add: post_like_file_def requireAuth_def)

lemma likeVideo_files_ok:
  assumes "\<forall>v\<in>set (DB_FILE st). count_ok v" and "likeVideo_files idn uid st = Inr (st', n)"
  shows "\<forall>v\<in>set (DB_FILE st'). count_ok v"
proof (cases "find (\<lambda>v. id_v v = idn) (DB_FILE st)")
  case None
  with assms show ?thesis by (simp add: likeVideo_files_def)
next
  case (Some vid)
  then have "count_ok vid" using assms find_mem by fastforce
  then have ok: "count_ok (liked_by uid vid)"
    unfolding liked_by_def by (rule count_ok_liked)
  have "DB_FILE st' = replace_first (\<lambda>v. id_v v = idn) (liked_by uid vid) (DB_FILE st)"
    using Some assms(2) by (auto simp: likeVideo_files_def liked_by_def Let_def)
  then show ?thesis
    using set_replace_first[of "\<lambda>v. id_v v = idn" "liked_by uid vid" "DB_FILE st"] ok assms(1)
    by auto
qed

lemma post_like_dual_files_ok:
  assumes "\<forall>v\<in>set (DB_FILE st). count_ok v"
  shows "\<forall>v\<in>set (DB_FILE (fst (post_like_dual (store_files lower) sess idn st))). count_ok v"
proof (cases sess)
  case None
  with assms show ?thesis by (simp add: post_like_dual_def requireAuth_def)
next
  case (Some u)
  show ?thesis
  proof (cases "likeVideo_files idn (id_s u) st")
    case (Inl e)
    with Some assms show ?thesis
      by (simp add: post_like_dual_def requireAuth_def like_handler_dual_def store_files_def
          Let_def)
  next
    case (Inr r)
    obtain st' n where r: "r = (st', n)" by (cases r)
    from likeVideo_files_ok[OF assms Inr[unfolded r]] Some Inr r show ?thesis
      by (simp add: post_like_dual_def requireAuth_def like_handler_dual_def store_files_def)
  qed
qed

lemma likes_file_ok: "\<forall>v\<in>set (likes_file reqs). count_ok v"
proof -
  have "\<forall>v\<in>set db. count_ok v \<Longrightarrow>
        \<forall>v\<in>set (foldl (\<lambda>db (sess, idn). fst (post_like_file sess idn db)) db reqs). count_ok v"
    for db
  proof (induction reqs arbitrary: db)
    case Nil
    then show ?case by simp
  next
    case (Cons r reqs)
    obtain a b where r: "r = (a, b)" by (cases r)
    from Cons.IH[OF post_like_file_ok[OF Cons.prems, of a b]] show ?case by (simp add: r)
  qed
  from this[OF count_ok_seed] show ?thesis by (simp add: likes_file_def)
qed

lemma likes_dual_ok: "\<forall>v\<in>set (DB_FILE (likes_dual lower reqs)). count_ok v"
proof -
  have "\<forall>v\<in>set (DB_FILE st). count_ok v \<Longrightarrow>
        \<forall>v\<in>set (DB_FILE (foldl (\<lambda>st (sess, idn).
             fst (post_like_dual (store_files lower) sess idn st)) st reqs)). count_ok v"
    for st
  proof (induction reqs arbitrary: st)
    case Nil
    then show ?case by simp
  next
    case (Cons r reqs)
    obtain a b where r: "r = (a, b)" by (cases r)
    from Cons.IH[OF post_like_dual_files_ok[OF Cons.prems, of lower a b]] show ?case
      by (simp add: r)
  qed
  from this[of seed_files] count_ok_seed show ?thesis
    by (simp add: likes_dual_def seed_files_def)
qed

text \<open>
  Claim C10 (part_002 lines 115-129; part_001 lines 263-275 under the like route). The
  document starts as seeded. After any sequence of like requests, of whatever sessions
  and video ids, every video has a \<^verbatim>\<open>likesByUser\<close> whose keys are pairwise different and
  a \<^verbatim>\<open>likeCount\<close> equal to the number of those keys.
\<close>

theorem likeCount_counts_witnesses:
  "(\<forall>v\<in>set (likes_file reqs).
      \<exists>m. likesByUser_v v = Some m \<and> distinct m \<and> likeCount_v v = Some (int (length m)))
   \<and> (\<forall>v\<in>set (DB_FILE (likes_dual lower reqs)).
      \<exists>m. likesByUser_v v = Some m \<and> distinct m \<and> likeCount_v v = Some (int (length m)))"
  using likes_file_ok[of reqs] likes_dual_ok[of lower reqs]
  by (auto simp: count_ok_def split: option.splits)

lemma likes_file_some_likes:
  "likes_file some_likes
     = (hd seed_file)\<lparr>likesByUser_v := Some [7, 8], likeCount_v := Some 2\<rparr> # tl seed_file"
  by (simp add: likes_file_def some_likes_def post_like_file_def requireAuth_def
      like_handler_file_def seed_file_def or_default_def alice_def bob_def)

lemma likes_dual_some_likes:
  "DB_FILE (likes_dual toLowerCase_ascii some_likes)
     = (hd seed_file)\<lparr>likesByUser_v := Some [7, 8], likeCount_v := Some 2\<rparr> # tl seed_file"
  by (simp add: likes_dual_def some_likes_def post_like_dual_def requireAuth_def
      like_handler_dual_def store_files_def likeVideo_files_def seed_files_def seed_file_def
      or_default_def alice_def bob_def)

theorem likeCount_counts_witnesses_witness:
  "hd (likes_file some_likes) \<in> set (likes_file some_likes)
   \<and> likesByUser_v (hd (likes_file some_likes)) = Some [7, 8]
   \<and> likeCount_v (hd (likes_file some_likes)) = Some 2
   \<and> hd (DB_FILE (likes_dual toLowerCase_ascii some_likes))
        \<in> set (DB_FILE (likes_dual toLowerCase_ascii some_likes))
   \<and> likesByUser_v (hd (DB_FILE (likes_dual toLowerCase_ascii some_likes))) = Some [7, 8]
   \<and> likeCount_v (hd (DB_FILE (likes_dual toLowerCase_ascii some_likes))) = Some 2"
proof -
  let ?v = "hd (likes_file some_likes)"
  let ?w = "hd (DB_FILE (likes_dual toLowerCase_ascii some_likes))"
  have m1: "?v \<in> set (likes_file some_likes)" by (simp add: likes_file_some_likes)
  have w1: "likesByUser_v ?v = Some [7, 8]" by (simp add: likes_file_some_likes)
  have m2: "?w \<in> set (DB_FILE (likes_dual toLowerCase_ascii some_likes))"
    by (simp add: likes_dual_some_likes)
  have w2: "likesByUser_v ?w = Some [7, 8]" by (simp add: likes_dual_some_likes)
  note t = likeCount_counts_witnesses[of some_likes toLowerCase_ascii]
  from t m1 obtain m where "likesByUser_v ?v = Some m" "likeCount_v ?v = Some (int (length m))"
    by blast
  with w1 have c1: "likeCount_v ?v = Some 2" by simp
  from t m2 obtain m' where "likesByUser_v ?w = Some m'" "likeCount_v ?w = Some (int (length m'))"
    by blast
  with w2 have c2: "likeCount_v ?w = Some 2" by simp
  from m1 w1 c1 m2 w2 c2 show ?thesis by blast
qed

end
